theory Spec2Isabelle
  imports Main "HOL-Library.AList"
begin

section \<open>Values, errors and the object store\<close>

text \<open>
  The Python values that \<^verbatim>\<open>nodes.py\<close> handles. Class objects and
  \<^verbatim>\<open>threading.Event\<close> objects have identity, so they are references into a
  store. Objects built by the \<^verbatim>\<open>packets\<close> module (templates and their
  tokens) are not part of \<^verbatim>\<open>nodes.py\<close>: a call
  \<^verbatim>\<open>packets.f(a, b)\<close> is kept as the uninterpreted term
  \<open>ExtV ''f'' [a, b]\<close>. A dictionary is an association list in insertion order.
\<close>

datatype pyval =
    NoneV
  | IntV int
  | StrV string
  | TupleV "pyval list"
  | DictV "(pyval \<times> pyval) list"
  | TypeRef nat
  | EventRef nat
  | ExtV string "pyval list"

text \<open>
  The exceptions of the modelled code. \<open>DanglingRef\<close> marks a class reference that
  is not in the store (Python cannot build one). \<open>Opaque\<close> marks the places where
  control would leave \<^verbatim>\<open>nodes.py\<close> for code that is not modelled (a method
  name shadowed by an instance attribute, an \<^verbatim>\<open>update\<close> looked up on a
  foreign object).
\<close>

datatype error = AttributeError | TypeError | IndexError | DanglingRef | Opaque

type_synonym 'a result = "error + 'a"

definition then_r :: "'a result \<Rightarrow> ('a \<Rightarrow> 'b result) \<Rightarrow> 'b result" where
  "then_r m f = (case m of Inl e \<Rightarrow> Inl e | Inr x \<Rightarrow> f x)"

text \<open>
  A class object as far as \<^verbatim>\<open>bindPort\<close> sees it: its
  \<^verbatim>\<open>__name__\<close>, its single base when that base is in the store, and its
  own attribute dictionary.
\<close>

record type_obj =
  tname :: string
  tbase :: "nat option"
  tdict :: "(string \<times> pyval) list"

text \<open>
  The store shared by all node instances: every class object, and the state
  (set or clear) of every event flag.
\<close>

record heap =
  types :: "type_obj list"
  events :: "bool list"

text \<open>
  A node instance: \<open>idict\<close> is its \<^verbatim>\<open>__dict__\<close>; \<open>cattrs\<close> are the
  attributes (other than methods) that attribute lookup finds on its class along
  the method resolution order, which no code of \<^verbatim>\<open>nodes.py\<close> writes.
\<close>

record inst =
  cattrs :: "(string \<times> pyval) list"
  idict :: "(string \<times> pyval) list"

type_synonym world = "heap \<times> inst"

text \<open>The two classes that \<^verbatim>\<open>bindPort\<close> takes from the \<^verbatim>\<open>core\<close> module.\<close>

record core_module =
  genericOutboundActionObjectBlockOnReply :: nat
  genericInboundActionObject :: nat

section \<open>Helpers for attribute access\<close>

definition getattr_self :: "inst \<Rightarrow> string \<Rightarrow> pyval result" where
  "getattr_self s a =
     (case map_of (idict s) a of
        Some v \<Rightarrow> Inr v
      | None \<Rightarrow> (case map_of (cattrs s) a of Some v \<Rightarrow> Inr v | None \<Rightarrow> Inl AttributeError))"

definition setattr_self :: "string \<Rightarrow> pyval \<Rightarrow> inst \<Rightarrow> inst" where
  "setattr_self a v s = s\<lparr>idict := AList.update a v (idict s)\<rparr>"

text \<open>
  \<^verbatim>\<open>self.m(...)\<close> for a method \<open>m\<close> of \<^verbatim>\<open>baseGestaltNode\<close>: the
  instance dictionary is searched first, so an instance attribute of that name
  shadows the method.
\<close>

definition method_of_self :: "inst \<Rightarrow> string \<Rightarrow> unit result" where
  "method_of_self s m = (if map_of (idict s) m = None then Inr () else Inl Opaque)"

definition type_name :: "heap \<Rightarrow> nat \<Rightarrow> string result" where
  "type_name h t = (if t < length (types h) then Inr (tname (types h ! t)) else Inl DanglingRef)"

definition setattr_type :: "nat \<Rightarrow> string \<Rightarrow> pyval \<Rightarrow> heap \<Rightarrow> heap" where
  "setattr_type t a v h =
     h\<lparr>types := (types h)[t := (types h ! t)\<lparr>tdict := AList.update a v (tdict (types h ! t))\<rparr>]\<rparr>"

text \<open>
  Attribute lookup through a class object: its own dictionary, then its base's.
  A base is always created before the class derived from it.
\<close>

function getattr_type :: "type_obj list \<Rightarrow> nat \<Rightarrow> string \<Rightarrow> pyval option" where
  "getattr_type ts t a =
     (if t < length ts then
        (case map_of (tdict (ts ! t)) a of
           Some v \<Rightarrow> Some v
         | None \<Rightarrow>
             (case tbase (ts ! t) of
                None \<Rightarrow> None
              | Some b \<Rightarrow> (if b < t then getattr_type ts b a else None)))
      else None)"
  by pat_completeness auto
termination
  by (relation "measure (\<lambda>(ts, t, a). t)") auto

text \<open>\<^verbatim>\<open>str(n)\<close> for an integer: its decimal digits, with a sign when negative.\<close>

function str_nat :: "nat \<Rightarrow> string" where
  "str_nat n = (if n < 10 then [''0123456789'' ! n] else str_nat (n div 10) @ [''0123456789'' ! (n mod 10)])"
  by pat_completeness auto
termination
  by (relation "measure (\<lambda>n. n)") auto

definition str_int :: "int \<Rightarrow> string" where
  "str_int i = (if i < 0 then CHR ''-'' # str_nat (nat (- i)) else str_nat (nat i))"

text \<open>
  \<^verbatim>\<open>d.update({k: v})\<close> where \<open>d\<close> is the value of an instance attribute.
  Only the instance dictionary holds tables the model can update in place; a
  class-level table would be shared between instances.
\<close>

definition update_table :: "string \<Rightarrow> pyval \<Rightarrow> pyval \<Rightarrow> inst \<Rightarrow> inst result" where
  "update_table a k v s =
     (case map_of (idict s) a of
        Some (DictV d) \<Rightarrow> Inr (setattr_self a (DictV (AList.update k v d)) s)
      | Some (TypeRef t) \<Rightarrow> Inl Opaque
      | Some (ExtV f xs) \<Rightarrow> Inl Opaque
      | Some _ \<Rightarrow> Inl AttributeError
      | None \<Rightarrow> (case map_of (cattrs s) a of Some _ \<Rightarrow> Inl Opaque | None \<Rightarrow> Inl AttributeError))"

section \<open>The port binder\<close>

text \<open>
  Modelled from the spec: \<^verbatim>\<open>packets.emptyTemplate\<close> is not in
  \<^verbatim>\<open>nodes.py\<close>; the spec calls its result the empty (zero-field) template.
\<close>

definition emptyTemplate :: "string \<Rightarrow> pyval" where
  "emptyTemplate name = ExtV ''emptyTemplate'' [StrV name]"

text \<open>\<^verbatim>\<open>threading.Event()\<close>: a new flag, clear.\<close>

definition new_Event :: "heap \<Rightarrow> pyval \<times> heap" where
  "new_Event h = (EventRef (length (events h)), h\<lparr>events := events h @ [False]\<rparr>)"

text \<open>
  \<^verbatim>\<open>baseGestaltNode.addDerivedType(self, baseClass, name = None)\<close>: the new
  class object is appended to the store and entered in the instance dictionary.
\<close>

definition addDerivedType :: "nat \<Rightarrow> string option \<Rightarrow> world \<Rightarrow> (nat \<times> world) result" where
  "addDerivedType baseClass name w =
     (case w of (h, s) \<Rightarrow>
        then_r (case name of Some n \<Rightarrow> Inr n | None \<Rightarrow> type_name h baseClass)
          (\<lambda>typeName.
             let newType = length (types h);
                 h1 = h\<lparr>types := types h @ [\<lparr>tname = typeName, tbase = Some baseClass, tdict = []\<rparr>]\<rparr>
             in Inr (newType, (h1, setattr_self typeName (TypeRef newType) s))))"

text \<open>
  \<^verbatim>\<open>baseGestaltNode.bindPort\<close>. The first block generates the two derived
  classes, the second the missing templates, the third stores the parameters
  in both classes, the fourth updates the two tables of the instance.
\<close>

definition derive_outbound :: "core_module \<Rightarrow> int \<Rightarrow> nat option \<Rightarrow> world \<Rightarrow> (nat \<times> world) result" where
  "derive_outbound core port outboundFunction w =
     (case outboundFunction of
        Some f \<Rightarrow>
          then_r (method_of_self (snd w) ''addDerivedType'') (\<lambda>_.
          then_r (addDerivedType f None w) (\<lambda>(c, (h, s)).
            Inr (c, (setattr_type c ''_baseActionObject_'' (TypeRef f) h, s))))
      | None \<Rightarrow>
          then_r (method_of_self (snd w) ''addDerivedType'') (\<lambda>_.
          then_r (addDerivedType (genericOutboundActionObjectBlockOnReply core)
                    (Some (''outboundActionObjectOnPort'' @ str_int port)) w) (\<lambda>(c, (h, s)).
            Inr (c, (setattr_type c ''_baseActionObject_''
                       (TypeRef (genericOutboundActionObjectBlockOnReply core)) h, s)))))"

definition derive_inbound :: "core_module \<Rightarrow> int \<Rightarrow> nat option \<Rightarrow> world \<Rightarrow> (nat \<times> world) result" where
  "derive_inbound core port inboundFunction w =
     (case inboundFunction of
        Some f \<Rightarrow>
          then_r (method_of_self (snd w) ''addDerivedType'') (\<lambda>_.
          then_r (addDerivedType f None w) (\<lambda>(c, (h, s)).
            Inr (c, (setattr_type c ''_baseActionObject_'' (TypeRef f) h, s))))
      | None \<Rightarrow>
          then_r (method_of_self (snd w) ''addDerivedType'') (\<lambda>_.
          then_r (addDerivedType (genericInboundActionObject core)
                    (Some (''inboundActionObjectOnPort'' @ str_int port)) w) (\<lambda>(c, (h, s)).
            Inr (c, (setattr_type c ''_baseActionObject_'' NoneV h, s)))))"

definition store_parameters :: "nat \<Rightarrow> nat \<Rightarrow> int \<Rightarrow> pyval \<Rightarrow> pyval \<Rightarrow> pyval \<Rightarrow> heap \<Rightarrow> heap" where
  "store_parameters outC inC port flag outboundTemplate inboundTemplate h =
     setattr_type inC ''_inboundTemplate_'' inboundTemplate
      (setattr_type outC ''_inboundTemplate_'' inboundTemplate
      (setattr_type inC ''_outboundTemplate_'' outboundTemplate
      (setattr_type outC ''_outboundTemplate_'' outboundTemplate
      (setattr_type inC ''_inboundPacketFlag_'' flag
      (setattr_type outC ''_inboundPacketFlag_'' flag
      (setattr_type inC ''_port_'' (IntV port)
      (setattr_type outC ''_port_'' (IntV port) h)))))))"

definition bindPort ::
  "core_module \<Rightarrow> int \<Rightarrow> nat option \<Rightarrow> pyval \<Rightarrow> nat option \<Rightarrow> pyval \<Rightarrow> world \<Rightarrow> world result" where
  "bindPort core port outboundFunction outboundTemplate inboundFunction inboundTemplate w =
     (case w of (h0, s0) \<Rightarrow>
        (case new_Event h0 of (inboundPacketFlag, h1) \<Rightarrow>
           then_r (derive_outbound core port outboundFunction (h1, s0)) (\<lambda>(outC, w2).
           then_r (derive_inbound core port inboundFunction w2) (\<lambda>(inC, (h3, s3)).
             let outT = (if outboundTemplate = NoneV
                         then emptyTemplate (''outboundTemplateOnPort'' @ str_int port)
                         else outboundTemplate);
                 inT = (if inboundTemplate = NoneV
                        then emptyTemplate (''inboundTemplateOnPort'' @ str_int port)
                        else inboundTemplate);
                 h4 = store_parameters outC inC port inboundPacketFlag outT inT h3
             in then_r (update_table ''_outboundPortTable_'' (TypeRef outC) (IntV port) s3) (\<lambda>s5.
                then_r (update_table ''_inboundPortTable_'' (IntV port) (TypeRef inC) s5) (\<lambda>s6.
                  Inr (h4, s6)))))))"

section \<open>The node lifecycle\<close>

text \<open>
  A node class as the lifecycle sees it. Its own dictionary says whether it
  holds \<^verbatim>\<open>_recursiveInit_\<close> (and which of the two bodies of \<^verbatim>\<open>nodes.py\<close>) and
  holds the body of each stage method the class defines itself; a stage body is
  any function on the store and the node that returns the new ones or raises.
  With the dictionary comes the rest of the class's own method resolution order,
  so that attribute lookup on a class follows that class's order, whatever the
  order of the node's class is.
\<close>

datatype rinit = GestaltRecursiveInit | DummyRecursiveInit

type_synonym kwargs = "(string \<times> pyval) list"

record class_dict =
  cname :: string
  c_recursiveInit :: "rinit option"
  c_init :: "(pyval list \<Rightarrow> kwargs \<Rightarrow> world \<Rightarrow> world result) option"
  c_initPackets :: "(world \<Rightarrow> world result) option"
  c_initPorts :: "(world \<Rightarrow> world result) option"
  c_onLoad :: "(world \<Rightarrow> world result) option"

datatype cls = Cls (cdict: class_dict) (mro_tail: "cls list")

text \<open>\<^verbatim>\<open>C.mro()\<close>, and a class statement with a single base.\<close>

definition mro_of :: "cls \<Rightarrow> cls list" where
  "mro_of c = c # mro_tail c"

definition class_with_base :: "class_dict \<Rightarrow> cls \<Rightarrow> cls" where
  "class_with_base d parent = Cls d (mro_of parent)"

text \<open>
  \<^verbatim>\<open>C._recursiveInit_\<close>: the first definition along the resolution order of
  \<open>C\<close> itself.
\<close>

fun lookup_recursiveInit :: "cls list \<Rightarrow> rinit option" where
  "lookup_recursiveInit [] = None"
| "lookup_recursiveInit (c # cs) =
     (case c_recursiveInit (cdict c) of Some r \<Rightarrow> Some r | None \<Rightarrow> lookup_recursiveInit cs)"

definition resolve_recursiveInit :: "cls \<Rightarrow> rinit option" where
  "resolve_recursiveInit c = lookup_recursiveInit (mro_of c)"

text \<open>
  \<^verbatim>\<open>if 'init' in baseClass.__dict__: baseClass.init(self, *args, **kwargs)\<close> and
  the same for the three stages without arguments.
\<close>

definition run_init :: "cls \<Rightarrow> pyval list \<Rightarrow> kwargs \<Rightarrow> world \<Rightarrow> world result" where
  "run_init baseClass args kwargs w =
     (case c_init (cdict baseClass) of Some f \<Rightarrow> f args kwargs w | None \<Rightarrow> Inr w)"

definition run_stage :: "(world \<Rightarrow> world result) option \<Rightarrow> world \<Rightarrow> world result" where
  "run_stage m w = (case m of Some f \<Rightarrow> f w | None \<Rightarrow> Inr w)"

text \<open>
  \<^verbatim>\<open>baseGestaltNode._recursiveInit_(self, recursionDepth, *args, **kwargs)\<close>;
  \<open>klass\<close> is \<^verbatim>\<open>self.__class__\<close>. The first test is Python's binding of the
  call's arguments to the parameters: a keyword argument named like a parameter
  that is already bound positionally raises \<^verbatim>\<open>TypeError\<close>. The parent class
  is the class at the next index of the node's resolution order, and
  \<^verbatim>\<open>parentClass._recursiveInit_\<close> is looked up on that class. The dummy
  \<^verbatim>\<open>baseVirtualNode._recursiveInit_(self, _recursionDepth_, *args, **kwargs)\<close>
  binds its own parameter names and does nothing.
\<close>

function recursiveInit :: "cls \<Rightarrow> nat \<Rightarrow> pyval list \<Rightarrow> kwargs \<Rightarrow> world \<Rightarrow> world result" where
  "recursiveInit klass recursionDepth args kwargs w =
     (if ''self'' \<in> set (map fst kwargs) \<or> ''recursionDepth'' \<in> set (map fst kwargs) then Inl TypeError
      else if length (mro_of klass) \<le> recursionDepth + 1 then Inl IndexError
      else
        then_r (case resolve_recursiveInit (mro_of klass ! (recursionDepth + 1)) of
                  None \<Rightarrow> Inl AttributeError
                | Some DummyRecursiveInit \<Rightarrow>
                    (if ''self'' \<in> set (map fst kwargs) \<or> ''_recursionDepth_'' \<in> set (map fst kwargs)
                     then Inl TypeError else Inr w)
                | Some GestaltRecursiveInit \<Rightarrow> recursiveInit klass (recursionDepth + 1) args kwargs w)
          (\<lambda>w1. then_r (run_init (mro_of klass ! recursionDepth) args kwargs w1)
          (\<lambda>w2. then_r (run_stage (c_initPackets (cdict (mro_of klass ! recursionDepth))) w2)
          (\<lambda>w3. then_r (run_stage (c_initPorts (cdict (mro_of klass ! recursionDepth))) w3)
          (\<lambda>w4. run_stage (c_onLoad (cdict (mro_of klass ! recursionDepth))) w4)))))"
  by pat_completeness auto
termination
  by (relation "measure (\<lambda>(klass, d, args, kwargs, w). length (mro_of klass) - d)") auto

declare recursiveInit.simps [simp del]

text \<open>
  \<^verbatim>\<open>*v\<close> and \<^verbatim>\<open>**v\<close> in a call: a tuple, a dictionary (its keys) or a string
  (its characters) unpacks as positional arguments; only a dictionary whose keys
  are strings unpacks as keyword arguments.
\<close>

definition unpack_args :: "pyval \<Rightarrow> pyval list result" where
  "unpack_args v =
     (case v of
        TupleV xs \<Rightarrow> Inr xs
      | DictV kvs \<Rightarrow> Inr (map fst kvs)
      | StrV s \<Rightarrow> Inr (map (\<lambda>c. StrV [c]) s)
      | ExtV f xs \<Rightarrow> Inl Opaque
      | _ \<Rightarrow> Inl TypeError)"

fun kwargs_of :: "(pyval \<times> pyval) list \<Rightarrow> kwargs result" where
  "kwargs_of [] = Inr []"
| "kwargs_of ((StrV k, v) # kvs) = then_r (kwargs_of kvs) (\<lambda>r. Inr ((k, v) # r))"
| "kwargs_of (_ # kvs) = Inl TypeError"

definition unpack_kwargs :: "pyval \<Rightarrow> kwargs result" where
  "unpack_kwargs v =
     (case v of
        DictV kvs \<Rightarrow> kwargs_of kvs
      | ExtV f xs \<Rightarrow> Inl Opaque
      | _ \<Rightarrow> Inl TypeError)"

text \<open>
  \<^verbatim>\<open>baseVirtualNode.__init__(self, *args, **kwargs)\<close>, called on the new object.
\<close>

definition baseVirtualNode_init :: "pyval list \<Rightarrow> kwargs \<Rightarrow> inst \<Rightarrow> inst result" where
  "baseVirtualNode_init args kwargs self =
     (if ''self'' \<in> set (map fst kwargs) then Inl TypeError
      else Inr (setattr_self ''_initKwargs_'' (DictV (map (\<lambda>(k, v). (StrV k, v)) kwargs))
                 (setattr_self ''_initArgs_'' (TupleV args) self)))"

text \<open>
  \<^verbatim>\<open>baseGestaltNode._init_(self)\<close>; \<open>klass\<close> is \<^verbatim>\<open>self.__class__\<close>.
  (A name cannot start with an underscore here: \<open>lifecycle_init\<close> is
  \<^verbatim>\<open>_init_\<close>, \<open>recursiveInit\<close> is \<^verbatim>\<open>_recursiveInit_\<close> and
  \<open>baseVirtualNode_init\<close> is \<^verbatim>\<open>__init__\<close>.)
\<close>

definition lifecycle_init :: "cls \<Rightarrow> world \<Rightarrow> world result" where
  "lifecycle_init klass w =
     (case w of (h, s) \<Rightarrow>
        let s1 = setattr_self ''_outboundPortTable_'' (DictV []) s;
            s2 = setattr_self ''_inboundPortTable_'' (DictV []) s1
        in then_r (method_of_self s2 ''_recursiveInit_'') (\<lambda>_.
           then_r (case resolve_recursiveInit klass of None \<Rightarrow> Inl AttributeError | Some r \<Rightarrow> Inr r) (\<lambda>r.
           then_r (getattr_self s2 ''_initArgs_'') (\<lambda>av.
           then_r (unpack_args av) (\<lambda>args.
           then_r (getattr_self s2 ''_initKwargs_'') (\<lambda>kv.
           then_r (unpack_kwargs kv) (\<lambda>kwargs.
             (case r of
                DummyRecursiveInit \<Rightarrow>
                  (if ''self'' \<in> set (map fst kwargs) \<or> ''_recursionDepth_'' \<in> set (map fst kwargs)
                   then Inl TypeError else Inr (h, s2))
              | GestaltRecursiveInit \<Rightarrow> recursiveInit klass 0 args kwargs (h, s2)))))))))"

text \<open>
  The classes \<^verbatim>\<open>object\<close>, \<^verbatim>\<open>baseVirtualNode(object)\<close> and
  \<^verbatim>\<open>baseGestaltNode(baseVirtualNode)\<close>.
\<close>

definition object_class :: cls where
  "object_class =
     Cls \<lparr>cname = ''object'', c_recursiveInit = None,
          c_init = None, c_initPackets = None, c_initPorts = None, c_onLoad = None\<rparr> []"

definition baseVirtualNode :: cls where
  "baseVirtualNode =
     class_with_base \<lparr>cname = ''baseVirtualNode'', c_recursiveInit = Some DummyRecursiveInit,
               c_init = None, c_initPackets = None, c_initPorts = None, c_onLoad = None\<rparr>
       object_class"

definition baseGestaltNode :: cls where
  "baseGestaltNode =
     class_with_base \<lparr>cname = ''baseGestaltNode'', c_recursiveInit = Some GestaltRecursiveInit,
               c_init = Some (\<lambda>args kwargs w. Inr w), c_initPackets = Some (\<lambda>w. Inr w),
               c_initPorts = Some (\<lambda>w. Inr w), c_onLoad = Some (\<lambda>w. Inr w)\<rparr>
       baseVirtualNode"

text \<open>
  Modelled from the spec: the \<^verbatim>\<open>packets\<close> module is not in \<^verbatim>\<open>nodes.py\<close>.
  A call \<^verbatim>\<open>packets.f(...)\<close> builds the uninterpreted term of that call; the
  spec reads the second argument of a field constructor as the width of the
  field in bytes.
\<close>

definition packets :: "string \<Rightarrow> pyval list \<Rightarrow> pyval" where
  "packets f xs = ExtV f xs"

text \<open>The standard node \<^verbatim>\<open>gestaltNode\<close>: its three stage methods.\<close>

definition gestaltNode_init :: "pyval list \<Rightarrow> kwargs \<Rightarrow> world \<Rightarrow> world result" where
  "gestaltNode_init args kwargs w =
     (if args \<noteq> [] \<or> kwargs \<noteq> [] then Inl TypeError
      else case w of (h, s) \<Rightarrow> Inr (h, setattr_self ''bootPageSize'' (IntV 128) s))"

definition gestaltNode_initPackets :: "world \<Rightarrow> world result" where
  "gestaltNode_initPackets w =
     (case w of (h, s) \<Rightarrow>
        let s1 = setattr_self ''statusResponsePacket''
                   (packets ''template'' [StrV ''statusResponse'',
                      packets ''pString'' [StrV ''status'', IntV 1],
                      packets ''unsignedInt'' [StrV ''appValidity'', IntV 1]]) s;
            s2 = setattr_self ''bootCommandRequestPacket''
                   (packets ''template'' [StrV ''bootCommandRequest'',
                      packets ''unsignedInt'' [StrV ''commandCode'', IntV 1]]) s1;
            s3 = setattr_self ''bootCommandResponsePacket''
                   (packets ''template'' [StrV ''bootCommandResponse'',
                      packets ''unsignedInt'' [StrV ''responseCode'', IntV 1],
                      packets ''unsignedInt'' [StrV ''pageNumber'', IntV 2]]) s2
        in then_r (getattr_self s3 ''bootPageSize'') (\<lambda>writeSize.
        let s4 = setattr_self ''bootWriteRequestPacket''
                   (packets ''template'' [StrV ''bootWriteRequest'',
                      packets ''unsignedInt'' [StrV ''commandCode'', IntV 1],
                      packets ''unsignedInt'' [StrV ''pageNumber'', IntV 2],
                      packets ''pList'' [StrV ''writeData'', writeSize]]) s3;
            s5 = setattr_self ''bootWriteResponsePacket''
                   (packets ''template'' [StrV ''bootWriteResponse'',
                      packets ''unsignedInt'' [StrV ''responseCode'', IntV 1],
                      packets ''unsignedInt'' [StrV ''pageNumber'', IntV 2]]) s4;
            s6 = setattr_self ''bootReadRequestPacket''
                   (packets ''template'' [StrV ''bootReadRequest'',
                      packets ''unsignedInt'' [StrV ''pageNumber'', IntV 2]]) s5
        in then_r (getattr_self s6 ''bootPageSize'') (\<lambda>readSize.
        let s7 = setattr_self ''bootReadResponsePacket''
                   (packets ''template'' [StrV ''bootReadResponse'',
                      packets ''pList'' [StrV ''readData'', readSize]]) s6;
            s8 = setattr_self ''urlResponsePacket''
                   (packets ''template'' [StrV ''urlResponse'',
                      packets ''pString'' [StrV ''URL'']]) s7;
            s9 = setattr_self ''setAddressRequestPacket''
                   (packets ''template'' [StrV ''setAddressRequest'',
                      packets ''pList'' [StrV ''setAddress'', IntV 2]]) s8;
            s10 = setattr_self ''setAddressResponsePacket''
                   (packets ''template'' [StrV ''setAddressResponse'',
                      packets ''pString'' [StrV ''URL'']]) s9
        in Inr (h, s10))))"

text \<open>
  One call \<^verbatim>\<open>self.bindPort(port = p, outboundFunction = self.f, outboundTemplate =
  self.t, inboundTemplate = self.u)\<close> of \<^verbatim>\<open>initPorts\<close>, where an argument that
  the call leaves out is \<^verbatim>\<open>None\<close>: the attributes are read in the order
  written, and a value that is not a class has no \<^verbatim>\<open>__name__\<close>.
\<close>

definition attr_or_None :: "inst \<Rightarrow> string option \<Rightarrow> pyval result" where
  "attr_or_None s a = (case a of None \<Rightarrow> Inr NoneV | Some n \<Rightarrow> getattr_self s n)"

definition as_class :: "pyval \<Rightarrow> nat option result" where
  "as_class v =
     (case v of
        NoneV \<Rightarrow> Inr None
      | TypeRef t \<Rightarrow> Inr (Some t)
      | ExtV f xs \<Rightarrow> Inl Opaque
      | _ \<Rightarrow> Inl AttributeError)"

definition self_bindPort ::
  "core_module \<Rightarrow> int \<Rightarrow> string option \<Rightarrow> string option \<Rightarrow> string option \<Rightarrow> world \<Rightarrow> world result" where
  "self_bindPort core port outboundFunction outboundTemplate inboundTemplate w =
     then_r (method_of_self (snd w) ''bindPort'') (\<lambda>_.
     then_r (attr_or_None (snd w) outboundFunction) (\<lambda>f.
     then_r (attr_or_None (snd w) outboundTemplate) (\<lambda>ot.
     then_r (attr_or_None (snd w) inboundTemplate) (\<lambda>it.
     then_r (as_class f) (\<lambda>fc.
       bindPort core port fc ot None it w)))))"

definition gestaltNode_initPorts :: "core_module \<Rightarrow> world \<Rightarrow> world result" where
  "gestaltNode_initPorts core w =
     then_r (self_bindPort core 1 (Some ''statusRequest'') None (Some ''statusResponsePacket'') w) (\<lambda>w1.
     then_r (self_bindPort core 2 (Some ''bootCommandRequest'') (Some ''bootCommandRequestPacket'')
               (Some ''bootCommandResponsePacket'') w1) (\<lambda>w2.
     then_r (self_bindPort core 3 (Some ''bootWriteRequest'') (Some ''bootWriteRequestPacket'')
               (Some ''bootWriteResponsePacket'') w2) (\<lambda>w3.
     then_r (self_bindPort core 4 (Some ''bootReadRequest'') (Some ''bootReadRequestPacket'')
               (Some ''bootReadResponsePacket'') w3) (\<lambda>w4.
     then_r (self_bindPort core 5 (Some ''urlRequest'') None (Some ''urlResponsePacket'') w4) (\<lambda>w5.
     then_r (self_bindPort core 6 (Some ''setAddressRequest'') (Some ''setAddressRequestPacket'')
               (Some ''setAddressResponsePacket'') w5) (\<lambda>w6.
     then_r (self_bindPort core 7 (Some ''identifyRequest'') None None w6) (\<lambda>w7.
       self_bindPort core 255 (Some ''resetRequest'') None None w7)))))))"

definition gestaltNode :: "core_module \<Rightarrow> cls" where
  "gestaltNode core =
     class_with_base \<lparr>cname = ''gestaltNode'', c_recursiveInit = None,
               c_init = Some gestaltNode_init, c_initPackets = Some gestaltNode_initPackets,
               c_initPorts = Some (gestaltNode_initPorts core), c_onLoad = None\<rparr>
       baseGestaltNode"

section \<open>The initialization schedule of the specification\<close>

text \<open>
  The order of initialization in the words of the specification: the levels from
  the most-base to the most-derived, and at each level the stages that the level
  defines itself, in the order init, initPackets, initPorts, onLoad; running a
  schedule stops at the first stage that raises.
\<close>

datatype stage = Init | InitPackets | InitPorts | OnLoad

fun defines_stage :: "cls \<Rightarrow> stage \<Rightarrow> bool" where
  "defines_stage c Init = (c_init (cdict c) \<noteq> None)"
| "defines_stage c InitPackets = (c_initPackets (cdict c) \<noteq> None)"
| "defines_stage c InitPorts = (c_initPorts (cdict c) \<noteq> None)"
| "defines_stage c OnLoad = (c_onLoad (cdict c) \<noteq> None)"

fun call_stage :: "pyval list \<Rightarrow> kwargs \<Rightarrow> cls \<times> stage \<Rightarrow> world \<Rightarrow> world result" where
  "call_stage args kwargs (c, Init) w =
     (case c_init (cdict c) of Some f \<Rightarrow> f args kwargs w | None \<Rightarrow> Inl AttributeError)"
| "call_stage args kwargs (c, InitPackets) w =
     (case c_initPackets (cdict c) of Some f \<Rightarrow> f w | None \<Rightarrow> Inl AttributeError)"
| "call_stage args kwargs (c, InitPorts) w =
     (case c_initPorts (cdict c) of Some f \<Rightarrow> f w | None \<Rightarrow> Inl AttributeError)"
| "call_stage args kwargs (c, OnLoad) w =
     (case c_onLoad (cdict c) of Some f \<Rightarrow> f w | None \<Rightarrow> Inl AttributeError)"

definition level_schedule :: "cls \<Rightarrow> (cls \<times> stage) list" where
  "level_schedule c = map (Pair c) (filter (defines_stage c) [Init, InitPackets, InitPorts, OnLoad])"

definition spec_schedule :: "cls list \<Rightarrow> (cls \<times> stage) list" where
  "spec_schedule mro = concat (map level_schedule (rev mro))"

fun run_schedule :: "pyval list \<Rightarrow> kwargs \<Rightarrow> (cls \<times> stage) list \<Rightarrow> world \<Rightarrow> world result" where
  "run_schedule args kwargs [] w = Inr w"
| "run_schedule args kwargs (e # es) w = then_r (call_stage args kwargs e w) (run_schedule args kwargs es)"

text \<open>
  A node type built by single inheritance over \<^verbatim>\<open>baseGestaltNode\<close> from the
  dictionaries of its classes, the most derived first.
\<close>

fun node_class :: "class_dict list \<Rightarrow> cls" where
  "node_class [] = baseGestaltNode"
| "node_class (d # ds) = class_with_base d (node_class ds)"

text \<open>The levels of such a type down to \<^verbatim>\<open>baseGestaltNode\<close>, the most derived first.\<close>

fun chain_levels :: "class_dict list \<Rightarrow> cls list" where
  "chain_levels [] = [baseGestaltNode]"
| "chain_levels (d # ds) = node_class (d # ds) # chain_levels ds"

text \<open>
  The levels whose stages a call of \<^verbatim>\<open>_recursiveInit_\<close> at a depth runs, the
  most-base first, or the exception the descent along the resolution order ends
  with before any stage has run: the control flow of \<open>recursiveInit\<close> with the
  stage calls left out.
\<close>

function visited_levels :: "kwargs \<Rightarrow> cls \<Rightarrow> nat \<Rightarrow> cls list result" where
  "visited_levels kwargs klass d =
     (if length (mro_of klass) \<le> d + 1 then Inl IndexError
      else
        (case resolve_recursiveInit (mro_of klass ! (d + 1)) of
           None \<Rightarrow> Inl AttributeError
         | Some DummyRecursiveInit \<Rightarrow>
             (if ''self'' \<in> set (map fst kwargs) \<or> ''_recursionDepth_'' \<in> set (map fst kwargs)
              then Inl TypeError else Inr [mro_of klass ! d])
         | Some GestaltRecursiveInit \<Rightarrow>
             then_r (visited_levels kwargs klass (d + 1)) (\<lambda>ls. Inr (ls @ [mro_of klass ! d]))))"
  by pat_completeness auto
termination
  by (relation "measure (\<lambda>(kwargs, klass, d). length (mro_of klass) - d)") auto

declare visited_levels.simps [simp del]

definition lifecycle_levels :: "kwargs \<Rightarrow> cls \<Rightarrow> cls list result" where
  "lifecycle_levels kwargs klass =
     (case resolve_recursiveInit klass of
        None \<Rightarrow> Inl AttributeError
      | Some DummyRecursiveInit \<Rightarrow>
          (if ''self'' \<in> set (map fst kwargs) \<or> ''_recursionDepth_'' \<in> set (map fst kwargs)
           then Inl TypeError else Inr [])
      | Some GestaltRecursiveInit \<Rightarrow>
          (if ''self'' \<in> set (map fst kwargs) \<or> ''recursionDepth'' \<in> set (map fst kwargs)
           then Inl TypeError else visited_levels kwargs klass 0))"

section \<open>Auxiliary definitions for the statements\<close>

text \<open>
  The class object a binding leaves in the store, the base a derived class gets,
  the value \<^verbatim>\<open>bindPort\<close> records as \<^verbatim>\<open>_baseActionObject_\<close> of the inbound
  class, and the template it stores.
\<close>

definition bound_class :: "string \<Rightarrow> nat \<Rightarrow> pyval \<Rightarrow> int \<Rightarrow> pyval \<Rightarrow> pyval \<Rightarrow> pyval \<Rightarrow> type_obj" where
  "bound_class nm b rec port flag outT inT =
     \<lparr>tname = nm, tbase = Some b,
      tdict = [(''_baseActionObject_'', rec), (''_port_'', IntV port), (''_inboundPacketFlag_'', flag),
               (''_outboundTemplate_'', outT), (''_inboundTemplate_'', inT)]\<rparr>"

definition outbound_base :: "core_module \<Rightarrow> nat option \<Rightarrow> nat" where
  "outbound_base core ofn = (case ofn of None \<Rightarrow> genericOutboundActionObjectBlockOnReply core | Some f \<Rightarrow> f)"

definition inbound_base :: "core_module \<Rightarrow> nat option \<Rightarrow> nat" where
  "inbound_base core ifn = (case ifn of None \<Rightarrow> genericInboundActionObject core | Some f \<Rightarrow> f)"

definition inbound_record :: "nat option \<Rightarrow> pyval" where
  "inbound_record ifn = (case ifn of None \<Rightarrow> NoneV | Some f \<Rightarrow> TypeRef f)"

definition template_or_empty :: "string \<Rightarrow> int \<Rightarrow> pyval \<Rightarrow> pyval" where
  "template_or_empty prefix port t = (if t = NoneV then emptyTemplate (prefix @ str_int port) else t)"

section \<open>A concrete store and node\<close>

text \<open>
  A store with the two generic classes of \<^verbatim>\<open>core\<close> and one handler class
  \<^verbatim>\<open>identifyRequest\<close>, a node whose tables are empty, and the stores and nodes
  that binding ports 7 and 5 produces from them.
\<close>

definition example_core :: core_module where
  "example_core = \<lparr>genericOutboundActionObjectBlockOnReply = 0, genericInboundActionObject = 1\<rparr>"

definition example_heap :: heap where
  "example_heap = \<lparr>types = [\<lparr>tname = ''genericOutboundActionObjectBlockOnReply'', tbase = None, tdict = []\<rparr>,
                      \<lparr>tname = ''genericInboundActionObject'', tbase = None, tdict = []\<rparr>,
                      \<lparr>tname = ''identifyRequest'', tbase = None, tdict = []\<rparr>], events = []\<rparr>"

definition example_node :: inst where
  "example_node = \<lparr>cattrs = [], idict = [(''_outboundPortTable_'', DictV []), (''_inboundPortTable_'', DictV [])]\<rparr>"

definition example_heap1 :: heap where
  "example_heap1 =
     \<lparr>types = types example_heap @
        [\<lparr>tname = ''identifyRequest'', tbase = Some 2,
          tdict = [(''_baseActionObject_'', TypeRef 2), (''_port_'', IntV 7),
                   (''_inboundPacketFlag_'', EventRef 0),
                   (''_outboundTemplate_'', ExtV ''emptyTemplate'' [StrV ''outboundTemplateOnPort7'']),
                   (''_inboundTemplate_'', ExtV ''emptyTemplate'' [StrV ''inboundTemplateOnPort7''])]\<rparr>,
         \<lparr>tname = ''inboundActionObjectOnPort7'', tbase = Some 1,
          tdict = [(''_baseActionObject_'', NoneV), (''_port_'', IntV 7),
                   (''_inboundPacketFlag_'', EventRef 0),
                   (''_outboundTemplate_'', ExtV ''emptyTemplate'' [StrV ''outboundTemplateOnPort7'']),
                   (''_inboundTemplate_'', ExtV ''emptyTemplate'' [StrV ''inboundTemplateOnPort7''])]\<rparr>],
      events = [False]\<rparr>"

definition example_node1 :: inst where
  "example_node1 =
     \<lparr>cattrs = [],
      idict = [(''_outboundPortTable_'', DictV [(TypeRef 3, IntV 7)]),
               (''_inboundPortTable_'', DictV [(IntV 7, TypeRef 4)]),
               (''identifyRequest'', TypeRef 3),
               (''inboundActionObjectOnPort7'', TypeRef 4)]\<rparr>"

definition example_heap2 :: heap where
  "example_heap2 =
     \<lparr>types = types example_heap1 @
        [\<lparr>tname = ''identifyRequest'', tbase = Some 2,
          tdict = [(''_baseActionObject_'', TypeRef 2), (''_port_'', IntV 7),
                   (''_inboundPacketFlag_'', EventRef 1),
                   (''_outboundTemplate_'', ExtV ''emptyTemplate'' [StrV ''outboundTemplateOnPort7'']),
                   (''_inboundTemplate_'', ExtV ''emptyTemplate'' [StrV ''inboundTemplateOnPort7''])]\<rparr>,
         \<lparr>tname = ''inboundActionObjectOnPort7'', tbase = Some 1,
          tdict = [(''_baseActionObject_'', NoneV), (''_port_'', IntV 7),
                   (''_inboundPacketFlag_'', EventRef 1),
                   (''_outboundTemplate_'', ExtV ''emptyTemplate'' [StrV ''outboundTemplateOnPort7'']),
                   (''_inboundTemplate_'', ExtV ''emptyTemplate'' [StrV ''inboundTemplateOnPort7''])]\<rparr>],
      events = [False, False]\<rparr>"

definition example_node2 :: inst where
  "example_node2 =
     \<lparr>cattrs = [],
      idict = [(''_outboundPortTable_'', DictV [(TypeRef 3, IntV 7), (TypeRef 5, IntV 7)]),
               (''_inboundPortTable_'', DictV [(IntV 7, TypeRef 6)]),
               (''identifyRequest'', TypeRef 5),
               (''inboundActionObjectOnPort7'', TypeRef 6)]\<rparr>"

definition example_heap3 :: heap where
  "example_heap3 =
     \<lparr>types = types example_heap1 @
        [\<lparr>tname = ''identifyRequest'', tbase = Some 2,
          tdict = [(''_baseActionObject_'', TypeRef 2), (''_port_'', IntV 5),
                   (''_inboundPacketFlag_'', EventRef 1),
                   (''_outboundTemplate_'', ExtV ''emptyTemplate'' [StrV ''outboundTemplateOnPort5'']),
                   (''_inboundTemplate_'', ExtV ''emptyTemplate'' [StrV ''inboundTemplateOnPort5''])]\<rparr>,
         \<lparr>tname = ''inboundActionObjectOnPort5'', tbase = Some 1,
          tdict = [(''_baseActionObject_'', NoneV), (''_port_'', IntV 5),
                   (''_inboundPacketFlag_'', EventRef 1),
                   (''_outboundTemplate_'', ExtV ''emptyTemplate'' [StrV ''outboundTemplateOnPort5'']),
                   (''_inboundTemplate_'', ExtV ''emptyTemplate'' [StrV ''inboundTemplateOnPort5''])]\<rparr>],
      events = [False, False]\<rparr>"

definition example_node3 :: inst where
  "example_node3 =
     \<lparr>cattrs = [],
      idict = [(''_outboundPortTable_'', DictV [(TypeRef 5, IntV 5)]),
               (''_inboundPortTable_'', DictV [(IntV 5, TypeRef 6)]),
               (''identifyRequest'', TypeRef 5),
               (''inboundActionObjectOnPort5'', TypeRef 6)]\<rparr>"

text \<open>
  Dictionaries of node classes whose stage bodies leave a mark on the node:
  \<^verbatim>\<open>exampleNode(baseGestaltNode)\<close> and \<^verbatim>\<open>derivedNode(exampleNode)\<close> form a
  chain; \<^verbatim>\<open>Mixin(object)\<close> defines \<^verbatim>\<open>onLoad\<close>, and
  \<^verbatim>\<open>mixedNode(exampleNode, Mixin)\<close> has the resolution order mixedNode,
  exampleNode, baseGestaltNode, baseVirtualNode, Mixin, object, while
  \<^verbatim>\<open>mixinFirstNode(Mixin, exampleNode)\<close> has the resolution order
  mixinFirstNode, Mixin, exampleNode, baseGestaltNode, baseVirtualNode, object.
  Then two nodes as \<^verbatim>\<open>__init__\<close> leaves them.
\<close>

definition example_user :: class_dict where
  "example_user =
     \<lparr>cname = ''exampleNode'', c_recursiveInit = None,
      c_init = Some (\<lambda>args kwargs w. case w of (h, s) \<Rightarrow>
                 Inr (h, setattr_self ''seen'' (TupleV [TupleV args, DictV (map (\<lambda>(k, v). (StrV k, v)) kwargs)]) s)),
      c_initPackets = None, c_initPorts = None,
      c_onLoad = Some (\<lambda>w. case w of (h, s) \<Rightarrow> Inr (h, setattr_self ''loaded'' (IntV 1) s))\<rparr>"

definition example_derived :: class_dict where
  "example_derived =
     \<lparr>cname = ''derivedNode'', c_recursiveInit = None,
      c_init = None,
      c_initPackets = Some (\<lambda>w. case w of (h, s) \<Rightarrow> Inr (h, setattr_self ''derivedPackets'' (IntV 2) s)),
      c_initPorts = None, c_onLoad = None\<rparr>"

definition example_mixin :: cls where
  "example_mixin =
     class_with_base \<lparr>cname = ''Mixin'', c_recursiveInit = None,
               c_init = None, c_initPackets = None, c_initPorts = None,
               c_onLoad = Some (\<lambda>w. case w of (h, s) \<Rightarrow> Inr (h, setattr_self ''mixinLoaded'' (IntV 1) s))\<rparr>
       object_class"

definition example_mixed :: cls where
  "example_mixed =
     Cls \<lparr>cname = ''mixedNode'', c_recursiveInit = None,
          c_init = None, c_initPackets = None, c_initPorts = None, c_onLoad = None\<rparr>
       [node_class [example_user], baseGestaltNode, baseVirtualNode, example_mixin, object_class]"


definition example_self :: inst where
  "example_self =
     \<lparr>cattrs = [],
      idict = [(''_initArgs_'', TupleV [IntV 3]), (''_initKwargs_'', DictV [(StrV ''baud'', IntV 9600)])]\<rparr>"

definition example_bad_self :: inst where
  "example_bad_self =
     \<lparr>cattrs = [],
      idict = [(''_initArgs_'', TupleV []), (''_initKwargs_'', DictV [(StrV ''recursionDepth'', IntV 1)])]\<rparr>"

section \<open>Lemmas about the port binder\<close>

declare str_nat.simps [simp del] getattr_type.simps [simp del]

lemma then_r_simps [simp]:
  "then_r (Inl e) f = Inl e" "then_r (Inr x) f = f x"
  by (simp_all add: then_r_def)

lemma addDerivedType_named:
  "addDerivedType b (Some nm) (h, s) =
     Inr (length (types h),
          (h\<lparr>types := types h @ [\<lparr>tname = nm, tbase = Some b, tdict = []\<rparr>]\<rparr>,
           setattr_self nm (TypeRef (length (types h))) s))"
  by (simp add: addDerivedType_def Let_def)

lemma addDerivedType_unnamed:
  "addDerivedType b None (h, s) =
     (if b < length (types h)
      then Inr (length (types h),
          (h\<lparr>types := types h @ [\<lparr>tname = tname (types h ! b), tbase = Some b, tdict = []\<rparr>]\<rparr>,
           setattr_self (tname (types h ! b)) (TypeRef (length (types h))) s))
      else Inl DanglingRef)"
  by (simp add: addDerivedType_def Let_def type_name_def)

lemma derive_outbound_eq:
  "derive_outbound core port ofn (h, s) =
     (if map_of (idict s) ''addDerivedType'' \<noteq> None then Inl Opaque
      else case ofn of
        None \<Rightarrow> Inr (length (types h),
           (h\<lparr>types := types h @ [\<lparr>tname = ''outboundActionObjectOnPort'' @ str_int port,
                 tbase = Some (genericOutboundActionObjectBlockOnReply core),
                 tdict = [(''_baseActionObject_'', TypeRef (genericOutboundActionObjectBlockOnReply core))]\<rparr>]\<rparr>,
            setattr_self (''outboundActionObjectOnPort'' @ str_int port) (TypeRef (length (types h))) s))
      | Some f \<Rightarrow>
          if f < length (types h) then
            Inr (length (types h),
             (h\<lparr>types := types h @ [\<lparr>tname = tname (types h ! f), tbase = Some f,
                 tdict = [(''_baseActionObject_'', TypeRef f)]\<rparr>]\<rparr>,
              setattr_self (tname (types h ! f)) (TypeRef (length (types h))) s))
          else Inl DanglingRef)"
  by (simp add: derive_outbound_def method_of_self_def addDerivedType_named addDerivedType_unnamed
        setattr_type_def split: option.splits)

lemma derive_inbound_eq:
  "derive_inbound core port ifn (h, s) =
     (if map_of (idict s) ''addDerivedType'' \<noteq> None then Inl Opaque
      else case ifn of
        None \<Rightarrow> Inr (length (types h),
           (h\<lparr>types := types h @ [\<lparr>tname = ''inboundActionObjectOnPort'' @ str_int port,
                 tbase = Some (genericInboundActionObject core),
                 tdict = [(''_baseActionObject_'', NoneV)]\<rparr>]\<rparr>,
            setattr_self (''inboundActionObjectOnPort'' @ str_int port) (TypeRef (length (types h))) s))
      | Some f \<Rightarrow>
          if f < length (types h) then
            Inr (length (types h),
             (h\<lparr>types := types h @ [\<lparr>tname = tname (types h ! f), tbase = Some f,
                 tdict = [(''_baseActionObject_'', TypeRef f)]\<rparr>]\<rparr>,
              setattr_self (tname (types h ! f)) (TypeRef (length (types h))) s))
          else Inl DanglingRef)"
  by (simp add: derive_inbound_def method_of_self_def addDerivedType_named addDerivedType_unnamed
        setattr_type_def split: option.splits)

lemma store_parameters_eq:
  "types h = ts @ [x, y] \<Longrightarrow> tdict x = [(''_baseActionObject_'', bx)] \<Longrightarrow> tdict y = [(''_baseActionObject_'', by)] \<Longrightarrow>
   store_parameters (length ts) (Suc (length ts)) port flag outT inT h =
     h\<lparr>types := ts @
        [x\<lparr>tdict := [(''_baseActionObject_'', bx), (''_port_'', IntV port), (''_inboundPacketFlag_'', flag),
                     (''_outboundTemplate_'', outT), (''_inboundTemplate_'', inT)]\<rparr>,
         y\<lparr>tdict := [(''_baseActionObject_'', by), (''_port_'', IntV port), (''_inboundPacketFlag_'', flag),
                     (''_outboundTemplate_'', outT), (''_inboundTemplate_'', inT)]\<rparr>]\<rparr>"
  by (simp add: store_parameters_def setattr_type_def list_update_append nth_append)

lemma update_table_Inr_iff:
  "update_table a k v s = Inr s' \<longleftrightarrow>
     (\<exists>d. map_of (idict s) a = Some (DictV d) \<and> s' = setattr_self a (DictV (AList.update k v d)) s)"
  by (auto simp: update_table_def split: option.splits pyval.splits)

lemma map_of_setattr_self:
  "map_of (idict (setattr_self a v s)) b = (if b = a then Some v else map_of (idict s) b)"
  by (simp add: setattr_self_def update_conv')

lemma derive_outbound_InrD:
  assumes "derive_outbound core port ofn (h, s) = Inr (c, (h1, s1))"
  shows "\<exists>nm. c = length (types h) \<and> map_of (idict s) ''addDerivedType'' = None
     \<and> (ofn = None \<longrightarrow> nm = ''outboundActionObjectOnPort'' @ str_int port)
     \<and> (\<forall>f. ofn = Some f \<longrightarrow> f < length (types h) \<and> nm = tname (types h ! f))
     \<and> h1 = h\<lparr>types := types h @ [\<lparr>tname = nm,
                 tbase = Some (case ofn of None \<Rightarrow> genericOutboundActionObjectBlockOnReply core | Some f \<Rightarrow> f),
                 tdict = [(''_baseActionObject_'',
                           TypeRef (case ofn of None \<Rightarrow> genericOutboundActionObjectBlockOnReply core | Some f \<Rightarrow> f))]\<rparr>]\<rparr>
     \<and> s1 = setattr_self nm (TypeRef (length (types h))) s"
  using assms by (auto simp: derive_outbound_eq split: if_splits option.splits)

lemma derive_inbound_InrD:
  assumes "derive_inbound core port ifn (h, s) = Inr (c, (h1, s1))"
  shows "\<exists>nm. c = length (types h) \<and> map_of (idict s) ''addDerivedType'' = None
     \<and> (ifn = None \<longrightarrow> nm = ''inboundActionObjectOnPort'' @ str_int port)
     \<and> (\<forall>f. ifn = Some f \<longrightarrow> f < length (types h) \<and> nm = tname (types h ! f))
     \<and> h1 = h\<lparr>types := types h @ [\<lparr>tname = nm,
                 tbase = Some (case ifn of None \<Rightarrow> genericInboundActionObject core | Some f \<Rightarrow> f),
                 tdict = [(''_baseActionObject_'', (case ifn of None \<Rightarrow> NoneV | Some f \<Rightarrow> TypeRef f))]\<rparr>]\<rparr>
     \<and> s1 = setattr_self nm (TypeRef (length (types h))) s"
  using assms by (auto simp: derive_inbound_eq split: if_splits option.splits)

lemma then_r_InrE:
  assumes "then_r m f = Inr y"
  obtains x where "m = Inr x" and "f x = Inr y"
  using assms by (cases m) simp_all

lemma bindPort_unfold:
  "bindPort core port ofn ot ifn it (h, s) =
     then_r (derive_outbound core port ofn (h\<lparr>events := events h @ [False]\<rparr>, s)) (\<lambda>(outC, w2).
     then_r (derive_inbound core port ifn w2) (\<lambda>(inC, (h3, s3)).
     then_r (update_table ''_outboundPortTable_'' (TypeRef outC) (IntV port) s3) (\<lambda>s5.
     then_r (update_table ''_inboundPortTable_'' (IntV port) (TypeRef inC) s5) (\<lambda>s6.
       Inr (store_parameters outC inC port (EventRef (length (events h)))
              (template_or_empty ''outboundTemplateOnPort'' port ot)
              (template_or_empty ''inboundTemplateOnPort'' port it) h3, s6)))))"
  by (simp add: bindPort_def new_Event_def template_or_empty_def Let_def)

lemma bindPort_InrE:
  assumes ok: "bindPort core port ofn ot ifn it (h, s) = Inr (h', s')"
  obtains (bound) on inn d1 d2 where
      "types h' = types h @
        [bound_class on (outbound_base core ofn) (TypeRef (outbound_base core ofn))
           port (EventRef (length (events h)))
           (template_or_empty ''outboundTemplateOnPort'' port ot)
           (template_or_empty ''inboundTemplateOnPort'' port it),
         bound_class inn (inbound_base core ifn) (inbound_record ifn)
           port (EventRef (length (events h)))
           (template_or_empty ''outboundTemplateOnPort'' port ot)
           (template_or_empty ''inboundTemplateOnPort'' port it)]"
    and "events h' = events h @ [False]"
    and "ofn = None \<longrightarrow> on = ''outboundActionObjectOnPort'' @ str_int port"
    and "\<forall>f. ofn = Some f \<longrightarrow> f < length (types h) \<and> on = tname (types h ! f)"
    and "ifn = None \<longrightarrow> inn = ''inboundActionObjectOnPort'' @ str_int port"
    and "\<forall>f. ifn = Some f \<longrightarrow> f < Suc (length (types h)) \<and>
                       inn = (if f < length (types h) then tname (types h ! f) else on)"
    and "map_of (idict s) ''addDerivedType'' = None" and "on \<noteq> ''addDerivedType''"
    and "on \<noteq> ''_outboundPortTable_''" and "inn \<noteq> ''_outboundPortTable_''"
    and "on \<noteq> ''_inboundPortTable_''" and "inn \<noteq> ''_inboundPortTable_''"
    and "map_of (idict s) ''_outboundPortTable_'' = Some (DictV d1)"
    and "map_of (idict s) ''_inboundPortTable_'' = Some (DictV d2)"
    and "s' = setattr_self ''_inboundPortTable_'' (DictV (AList.update (IntV port) (TypeRef (Suc (length (types h)))) d2))
           (setattr_self ''_outboundPortTable_'' (DictV (AList.update (TypeRef (length (types h))) (IntV port) d1))
           (setattr_self inn (TypeRef (Suc (length (types h))))
           (setattr_self on (TypeRef (length (types h))) s)))"
proof -
  define h1 where "h1 = h\<lparr>events := events h @ [False]\<rparr>"
  define flag where "flag = EventRef (length (events h))"
  define outT where "outT = template_or_empty ''outboundTemplateOnPort'' port ot"
  define inT where "inT = template_or_empty ''inboundTemplateOnPort'' port it"
  from ok[unfolded bindPort_unfold] obtain x1 where
    a1: "derive_outbound core port ofn (h1, s) = Inr x1" and
    r1: "(case x1 of (outC, w2) \<Rightarrow>
     then_r (derive_inbound core port ifn w2) (\<lambda>(inC, (h3, s3)).
     then_r (update_table ''_outboundPortTable_'' (TypeRef outC) (IntV port) s3) (\<lambda>s5.
     then_r (update_table ''_inboundPortTable_'' (IntV port) (TypeRef inC) s5) (\<lambda>s6.
       Inr (store_parameters outC inC port flag outT inT h3, s6))))) = Inr (h', s')"
    unfolding h1_def flag_def outT_def inT_def by (rule then_r_InrE)
  obtain outC h2 s2 where x1: "x1 = (outC, (h2, s2))"
    by (metis prod.exhaust)
  from r1 obtain x2 where
    a2: "derive_inbound core port ifn (h2, s2) = Inr x2" and
    r2: "(case x2 of (inC, (h3, s3)) \<Rightarrow>
     then_r (update_table ''_outboundPortTable_'' (TypeRef outC) (IntV port) s3) (\<lambda>s5.
     then_r (update_table ''_inboundPortTable_'' (IntV port) (TypeRef inC) s5) (\<lambda>s6.
       Inr (store_parameters outC inC port flag outT inT h3, s6)))) = Inr (h', s')"
    unfolding x1 prod.case by (rule then_r_InrE)
  obtain inC h3 s3 where x2: "x2 = (inC, (h3, s3))"
    by (metis prod.exhaust)
  from r2 obtain s5 where
    t_out: "update_table ''_outboundPortTable_'' (TypeRef outC) (IntV port) s3 = Inr s5" and
    r3: "then_r (update_table ''_inboundPortTable_'' (IntV port) (TypeRef inC) s5) (\<lambda>s6.
       Inr (store_parameters outC inC port flag outT inT h3, s6)) = Inr (h', s')"
    unfolding x2 prod.case by (rule then_r_InrE)
  from r3 obtain s6 where
    t_in0: "update_table ''_inboundPortTable_'' (IntV port) (TypeRef inC) s5 = Inr s6" and
    r4: "Inr (store_parameters outC inC port flag outT inT h3, s6) = (Inr (h', s') :: world result)"
    by (rule then_r_InrE)
  from r4 have heap: "h' = store_parameters outC inC port flag outT inT h3" and s6: "s6 = s'"
    by simp_all
  note t_in = t_in0[unfolded s6]
  note d_out = a1[unfolded x1]
  note d_in = a2[unfolded x2]
  from derive_outbound_InrD[OF d_out] obtain on where
    outC: "outC = length (types h)" and
    m1: "map_of (idict s) ''addDerivedType'' = None" and
    on: "ofn = None \<longrightarrow> on = ''outboundActionObjectOnPort'' @ str_int port"
        "\<forall>f. ofn = Some f \<longrightarrow> f < length (types h) \<and> on = tname (types h ! f)" and
    h2: "h2 = h1\<lparr>types := types h1 @ [\<lparr>tname = on,
                 tbase = Some (case ofn of None \<Rightarrow> genericOutboundActionObjectBlockOnReply core | Some f \<Rightarrow> f),
                 tdict = [(''_baseActionObject_'',
                           TypeRef (case ofn of None \<Rightarrow> genericOutboundActionObjectBlockOnReply core | Some f \<Rightarrow> f))]\<rparr>]\<rparr>" and
    s2: "s2 = setattr_self on (TypeRef (length (types h))) s"
    unfolding h1_def by (elim exE conjE) simp
  from derive_inbound_InrD[OF d_in] obtain inn where
    inC0: "inC = length (types h2)" and
    m2: "map_of (idict s2) ''addDerivedType'' = None" and
    inn0: "ifn = None \<longrightarrow> inn = ''inboundActionObjectOnPort'' @ str_int port"
          "\<forall>f. ifn = Some f \<longrightarrow> f < length (types h2) \<and> inn = tname (types h2 ! f)" and
    h3: "h3 = h2\<lparr>types := types h2 @ [\<lparr>tname = inn,
                 tbase = Some (case ifn of None \<Rightarrow> genericInboundActionObject core | Some f \<Rightarrow> f),
                 tdict = [(''_baseActionObject_'', (case ifn of None \<Rightarrow> NoneV | Some f \<Rightarrow> TypeRef f))]\<rparr>]\<rparr>" and
    s30: "s3 = setattr_self inn (TypeRef (length (types h2))) s2"
    by blast
  have len2: "length (types h2) = Suc (length (types h))"
    by (simp add: h2 h1_def)
  have inC: "inC = Suc (length (types h))" and
    s3: "s3 = setattr_self inn (TypeRef (Suc (length (types h)))) s2"
    using inC0 s30 len2 by simp_all
  have nth2: "f < Suc (length (types h)) \<Longrightarrow>
      tname (types h2 ! f) = (if f < length (types h) then tname (types h ! f) else on)" for f
    by (auto simp: h2 h1_def nth_append less_Suc_eq)
  note inn = inn0(1)
  have inn': "\<forall>f. ifn = Some f \<longrightarrow> f < Suc (length (types h)) \<and>
                       inn = (if f < length (types h) then tname (types h ! f) else on)"
  proof (intro allI impI)
    fix f assume "ifn = Some f"
    with inn0(2) have "f < length (types h2)" and "inn = tname (types h2 ! f)"
      by blast+
    then show "f < Suc (length (types h)) \<and>
        inn = (if f < length (types h) then tname (types h ! f) else on)"
      using nth2[of f] len2 by simp
  qed
  have on_ne: "on \<noteq> ''addDerivedType''"
  proof
    assume "on = ''addDerivedType''"
    with m2 show False unfolding s2 by (simp add: map_of_setattr_self)
  qed
  from t_out obtain d1 where
    o1: "map_of (idict s3) ''_outboundPortTable_'' = Some (DictV d1)" and
    s5: "s5 = setattr_self ''_outboundPortTable_'' (DictV (AList.update (TypeRef outC) (IntV port) d1)) s3"
    by (auto simp: update_table_Inr_iff)
  from t_in obtain d2 where
    i1: "map_of (idict s5) ''_inboundPortTable_'' = Some (DictV d2)" and
    s': "s' = setattr_self ''_inboundPortTable_'' (DictV (AList.update (IntV port) (TypeRef inC) d2)) s5"
    by (auto simp: update_table_Inr_iff)
  have o3: "inn \<noteq> ''_outboundPortTable_''"
  proof
    assume "inn = ''_outboundPortTable_''"
    with o1 show False unfolding s3 by (simp add: map_of_setattr_self)
  qed
  with o1 have o4: "map_of (idict s2) ''_outboundPortTable_'' = Some (DictV d1)"
    unfolding s3 by (simp add: map_of_setattr_self)
  have o5: "on \<noteq> ''_outboundPortTable_''"
  proof
    assume "on = ''_outboundPortTable_''"
    with o4 show False unfolding s2 by (simp add: map_of_setattr_self)
  qed
  with o4 have o6: "map_of (idict s) ''_outboundPortTable_'' = Some (DictV d1)"
    unfolding s2 by (simp add: map_of_setattr_self)
  from i1 have i3: "map_of (idict s3) ''_inboundPortTable_'' = Some (DictV d2)"
    unfolding s5 by (simp add: map_of_setattr_self)
  have i4: "inn \<noteq> ''_inboundPortTable_''"
  proof
    assume "inn = ''_inboundPortTable_''"
    with i3 show False unfolding s3 by (simp add: map_of_setattr_self)
  qed
  with i3 have i5: "map_of (idict s2) ''_inboundPortTable_'' = Some (DictV d2)"
    unfolding s3 by (simp add: map_of_setattr_self)
  have i6: "on \<noteq> ''_inboundPortTable_''"
  proof
    assume "on = ''_inboundPortTable_''"
    with i5 show False unfolding s2 by (simp add: map_of_setattr_self)
  qed
  with i5 have i7: "map_of (idict s) ''_inboundPortTable_'' = Some (DictV d2)"
    unfolding s2 by (simp add: map_of_setattr_self)
  have ty: "types h3 = types h @ [\<lparr>tname = on,
                 tbase = Some (case ofn of None \<Rightarrow> genericOutboundActionObjectBlockOnReply core | Some f \<Rightarrow> f),
                 tdict = [(''_baseActionObject_'',
                           TypeRef (case ofn of None \<Rightarrow> genericOutboundActionObjectBlockOnReply core | Some f \<Rightarrow> f))]\<rparr>,
               \<lparr>tname = inn,
                 tbase = Some (case ifn of None \<Rightarrow> genericInboundActionObject core | Some f \<Rightarrow> f),
                 tdict = [(''_baseActionObject_'', (case ifn of None \<Rightarrow> NoneV | Some f \<Rightarrow> TypeRef f))]\<rparr>]"
    by (simp add: h3 h2 h1_def)
  have ev: "events h3 = events h @ [False]"
    by (simp add: h3 h2 h1_def)
  have heap': "h' = h3\<lparr>types := types h @
        [bound_class on (case ofn of None \<Rightarrow> genericOutboundActionObjectBlockOnReply core | Some f \<Rightarrow> f)
           (TypeRef (case ofn of None \<Rightarrow> genericOutboundActionObjectBlockOnReply core | Some f \<Rightarrow> f))
           port flag outT inT,
         bound_class inn (case ifn of None \<Rightarrow> genericInboundActionObject core | Some f \<Rightarrow> f)
           (case ifn of None \<Rightarrow> NoneV | Some f \<Rightarrow> TypeRef f)
           port flag outT inT]\<rparr>"
    unfolding heap outC inC
    by (subst store_parameters_eq[OF ty]) (simp_all add: bound_class_def)
  show ?thesis
  proof (rule that[of on inn d1 d2])
    show "types h' = types h @
        [bound_class on (outbound_base core ofn) (TypeRef (outbound_base core ofn))
           port (EventRef (length (events h)))
           (template_or_empty ''outboundTemplateOnPort'' port ot)
           (template_or_empty ''inboundTemplateOnPort'' port it),
         bound_class inn (inbound_base core ifn) (inbound_record ifn)
           port (EventRef (length (events h)))
           (template_or_empty ''outboundTemplateOnPort'' port ot)
           (template_or_empty ''inboundTemplateOnPort'' port it)]"
      by (simp add: heap' flag_def outT_def inT_def outbound_base_def inbound_base_def inbound_record_def)
    show "events h' = events h @ [False]"
      by (simp add: heap' ev)
    show "s' = setattr_self ''_inboundPortTable_'' (DictV (AList.update (IntV port) (TypeRef (Suc (length (types h)))) d2))
           (setattr_self ''_outboundPortTable_'' (DictV (AList.update (TypeRef (length (types h))) (IntV port) d1))
           (setattr_self inn (TypeRef (Suc (length (types h))))
           (setattr_self on (TypeRef (length (types h))) s)))"
      by (simp add: s' s5 s3 s2 outC inC)
  qed (use on inn inn' m1 on_ne o3 o5 o6 i4 i6 i7 in blast)+
qed

lemma update_table_dict:
  "map_of (idict s) a = Some (DictV d) \<Longrightarrow>
   update_table a k v s = Inr (setattr_self a (DictV (AList.update k v d)) s)"
  by (simp add: update_table_def)

lemma default_names_distinct:
  "''outboundActionObjectOnPort'' @ p \<noteq> ''addDerivedType''"
  "''outboundActionObjectOnPort'' @ p \<noteq> ''_outboundPortTable_''"
  "''outboundActionObjectOnPort'' @ p \<noteq> ''_inboundPortTable_''"
  "''inboundActionObjectOnPort'' @ p \<noteq> ''_outboundPortTable_''"
  "''inboundActionObjectOnPort'' @ p \<noteq> ''_inboundPortTable_''"
  by simp_all

lemma bindPort_eq:
  assumes on: "ofn = None \<longrightarrow> on = ''outboundActionObjectOnPort'' @ str_int port"
              "\<forall>f. ofn = Some f \<longrightarrow> f < length (types h) \<and> on = tname (types h ! f)"
      and inn: "ifn = None \<longrightarrow> inn = ''inboundActionObjectOnPort'' @ str_int port"
               "\<forall>f. ifn = Some f \<longrightarrow> f < Suc (length (types h)) \<and>
                       inn = (if f < length (types h) then tname (types h ! f) else on)"
      and m1: "map_of (idict s) ''addDerivedType'' = None"
      and on_ne: "on \<noteq> ''addDerivedType''"
      and o: "on \<noteq> ''_outboundPortTable_''" "inn \<noteq> ''_outboundPortTable_''"
             "map_of (idict s) ''_outboundPortTable_'' = Some (DictV d1)"
      and i: "on \<noteq> ''_inboundPortTable_''" "inn \<noteq> ''_inboundPortTable_''"
             "map_of (idict s) ''_inboundPortTable_'' = Some (DictV d2)"
  shows "bindPort core port ofn ot ifn it (h, s) =
     Inr (h\<lparr>types := types h @
             [bound_class on (outbound_base core ofn) (TypeRef (outbound_base core ofn))
                port (EventRef (length (events h)))
                (template_or_empty ''outboundTemplateOnPort'' port ot)
                (template_or_empty ''inboundTemplateOnPort'' port it),
              bound_class inn (inbound_base core ifn) (inbound_record ifn)
                port (EventRef (length (events h)))
                (template_or_empty ''outboundTemplateOnPort'' port ot)
                (template_or_empty ''inboundTemplateOnPort'' port it)],
            events := events h @ [False]\<rparr>,
          setattr_self ''_inboundPortTable_''
            (DictV (AList.update (IntV port) (TypeRef (Suc (length (types h)))) d2))
           (setattr_self ''_outboundPortTable_''
            (DictV (AList.update (TypeRef (length (types h))) (IntV port) d1))
           (setattr_self inn (TypeRef (Suc (length (types h))))
           (setattr_self on (TypeRef (length (types h))) s))))"
proof -
  define h1 where "h1 = h\<lparr>events := events h @ [False]\<rparr>"
  define x where "x = \<lparr>tname = on, tbase = Some (outbound_base core ofn),
                 tdict = [(''_baseActionObject_'', TypeRef (outbound_base core ofn))]\<rparr>"
  define y where "y = \<lparr>tname = inn, tbase = Some (inbound_base core ifn),
                 tdict = [(''_baseActionObject_'', inbound_record ifn)]\<rparr>"
  define h2 where "h2 = h1\<lparr>types := types h1 @ [x]\<rparr>"
  define h3 where "h3 = h2\<lparr>types := types h2 @ [y]\<rparr>"
  define s2 where "s2 = setattr_self on (TypeRef (length (types h))) s"
  define s3 where "s3 = setattr_self inn (TypeRef (Suc (length (types h)))) s2"
  have d_out: "derive_outbound core port ofn (h1, s) = Inr (length (types h), (h2, s2))"
    using on m1
    by (cases ofn) (simp_all add: derive_outbound_eq h1_def h2_def s2_def x_def outbound_base_def)
  have m2: "map_of (idict s2) ''addDerivedType'' = None"
    using m1 on_ne by (simp add: s2_def map_of_setattr_self)
  have len2: "length (types h2) = Suc (length (types h))"
    by (simp add: h2_def h1_def)
  have nth2: "f < Suc (length (types h)) \<Longrightarrow>
      tname (types h2 ! f) = (if f < length (types h) then tname (types h ! f) else on)" for f
    by (auto simp: h2_def h1_def x_def nth_append less_Suc_eq)
  have d_in: "derive_inbound core port ifn (h2, s2) = Inr (Suc (length (types h)), (h3, s3))"
  proof (cases ifn)
    case None
    with inn(1) m2 len2 show ?thesis
      by (simp add: derive_inbound_eq h3_def y_def s3_def inbound_base_def inbound_record_def)
  next
    case (Some f)
    with inn(2) have "f < Suc (length (types h))" and
      "inn = (if f < length (types h) then tname (types h ! f) else on)" by blast+
    with Some m2 len2 nth2[of f] show ?thesis
      by (simp add: derive_inbound_eq h3_def y_def s3_def inbound_base_def inbound_record_def)
  qed
  have o1: "map_of (idict s3) ''_outboundPortTable_'' = Some (DictV d1)"
    using o by (simp add: s3_def s2_def map_of_setattr_self)
  define s5 where "s5 = setattr_self ''_outboundPortTable_''
      (DictV (AList.update (TypeRef (length (types h))) (IntV port) d1)) s3"
  have i1: "map_of (idict s5) ''_inboundPortTable_'' = Some (DictV d2)"
    using i by (simp add: s5_def s3_def s2_def map_of_setattr_self)
  have ty: "types h3 = types h @ [x, y]"
    by (simp add: h3_def h2_def h1_def)
  have sp: "store_parameters (length (types h)) (Suc (length (types h))) port flag outT inT h3 =
      h3\<lparr>types := types h @ [bound_class on (outbound_base core ofn) (TypeRef (outbound_base core ofn))
                port flag outT inT,
              bound_class inn (inbound_base core ifn) (inbound_record ifn) port flag outT inT]\<rparr>"
    for flag outT inT
    by (subst store_parameters_eq[OF ty]) (simp_all add: x_def y_def bound_class_def)
  have sp': "store_parameters (length (types h)) (Suc (length (types h))) port flag outT inT h3 =
      h\<lparr>types := types h @ [bound_class on (outbound_base core ofn) (TypeRef (outbound_base core ofn))
                port flag outT inT,
              bound_class inn (inbound_base core ifn) (inbound_record ifn) port flag outT inT],
         events := events h @ [False]\<rparr>"
    for flag outT inT
    unfolding sp by (simp add: h3_def h2_def h1_def)
  show ?thesis
    unfolding bindPort_unfold
    using d_out[unfolded h1_def] d_in update_table_dict[OF o1] update_table_dict[OF i1]
    by (simp add: sp' s5_def s3_def s2_def)
qed

lemma bindPort_InrI:
  assumes "ofn = None \<longrightarrow> on = ''outboundActionObjectOnPort'' @ str_int port"
          "\<forall>f. ofn = Some f \<longrightarrow> f < length (types h) \<and> on = tname (types h ! f)"
          "ifn = None \<longrightarrow> inn = ''inboundActionObjectOnPort'' @ str_int port"
          "\<forall>f. ifn = Some f \<longrightarrow> f < Suc (length (types h)) \<and>
                       inn = (if f < length (types h) then tname (types h ! f) else on)"
          "map_of (idict s) ''addDerivedType'' = None"
          "on \<noteq> ''addDerivedType''"
          "on \<noteq> ''_outboundPortTable_''" "inn \<noteq> ''_outboundPortTable_''"
          "map_of (idict s) ''_outboundPortTable_'' = Some (DictV d1)"
          "on \<noteq> ''_inboundPortTable_''" "inn \<noteq> ''_inboundPortTable_''"
          "map_of (idict s) ''_inboundPortTable_'' = Some (DictV d2)"
  shows "\<exists>r. bindPort core port ofn ot ifn it (h, s) = Inr r"
  using bindPort_eq[OF assms] by blast

lemma getattr_type_own:
  "t < length ts \<Longrightarrow> map_of (tdict (ts ! t)) a = Some v \<Longrightarrow> getattr_type ts t a = Some v"
  by (subst getattr_type.simps) simp

lemma getattr_type_prefix:
  "t < length ts \<Longrightarrow> getattr_type (ts @ us) t a = getattr_type ts t a"
proof (induction ts t a rule: getattr_type.induct)
  case (1 ts t a)
  show ?case
  proof (cases "map_of (tdict (ts ! t)) a")
    case (Some v)
    with "1.prems" show ?thesis
      by (subst (1 2) getattr_type.simps) (simp add: nth_append)
  next
    case None
    show ?thesis
    proof (cases "tbase (ts ! t)")
      case N: None
      with None "1.prems" show ?thesis
        by (subst (1 2) getattr_type.simps) (simp add: nth_append)
    next
      case (Some b)
      show ?thesis
      proof (cases "b < t")
        case True
        with "1.IH"[OF "1.prems" None Some True] "1.prems" have
          "getattr_type (ts @ us) b a = getattr_type ts b a" by simp
        with None Some True "1.prems" show ?thesis
          by (subst (1 2) getattr_type.simps) (simp add: nth_append)
      next
        case False
        with None Some "1.prems" show ?thesis
          by (subst (1 2) getattr_type.simps) (simp add: nth_append)
      qed
    qed
  qed
qed

lemma bound_class_sel [simp]:
  "tname (bound_class nm b r port flag outT inT) = nm"
  "tbase (bound_class nm b r port flag outT inT) = Some b"
  "map_of (tdict (bound_class nm b r port flag outT inT)) ''_baseActionObject_'' = Some r"
  "map_of (tdict (bound_class nm b r port flag outT inT)) ''_port_'' = Some (IntV port)"
  "map_of (tdict (bound_class nm b r port flag outT inT)) ''_inboundPacketFlag_'' = Some flag"
  "map_of (tdict (bound_class nm b r port flag outT inT)) ''_outboundTemplate_'' = Some outT"
  "map_of (tdict (bound_class nm b r port flag outT inT)) ''_inboundTemplate_'' = Some inT"
  by (simp_all add: bound_class_def)

lemma getattr_type_new0:
  "map_of (tdict x) a = Some v \<Longrightarrow> getattr_type (ts @ [x, y]) (length ts) a = Some v"
  by (rule getattr_type_own) (simp_all add: nth_append)

lemma getattr_type_new1:
  "map_of (tdict y) a = Some v \<Longrightarrow> getattr_type (ts @ [x, y]) (Suc (length ts)) a = Some v"
  by (rule getattr_type_own) (simp_all add: nth_append)

lemma template_or_empty_simps:
  "t \<noteq> NoneV \<Longrightarrow> template_or_empty p port t = t"
  "template_or_empty p port NoneV = emptyTemplate (p @ str_int port)"
  by (simp_all add: template_or_empty_def)

lemma update_fresh_append:
  "k \<notin> fst ` set al \<Longrightarrow> AList.update k v al = al @ [(k, v)]"
  by (induction al) auto

lemma count_key_distinct:
  "distinct (map fst al) \<Longrightarrow> k \<in> fst ` set al \<Longrightarrow> length (filter (\<lambda>e. fst e = k) al) = 1"
proof (induction al)
  case Nil
  then show ?case by simp
next
  case (Cons e al)
  show ?case
  proof (cases "fst e = k")
    case True
    with Cons.prems have "k \<notin> fst ` set al"
      by simp
    then have "filter (\<lambda>e. fst e = k) al = []"
      by (auto simp: filter_empty_conv)
    with True show ?thesis by simp
  next
    case False
    with Cons show ?thesis by auto
  qed
qed

lemma bindPort_default_handlers_succeed:
  assumes "map_of (idict s) ''addDerivedType'' = None"
      and "map_of (idict s) ''_outboundPortTable_'' = Some (DictV d1)"
      and "map_of (idict s) ''_inboundPortTable_'' = Some (DictV d2)"
  shows "\<exists>r. bindPort core port None ot None it (h, s) = Inr r"
  by (rule bindPort_InrI[where on = "''outboundActionObjectOnPort'' @ str_int port"
        and inn = "''inboundActionObjectOnPort'' @ str_int port" and ?d1.0 = d1 and ?d2.0 = d2])
     (use assms in \<open>simp_all only: default_names_distinct not_False_eq_True simp_thms option.simps\<close>)

lemma bindPort_omission_succeeds:
  assumes ok: "bindPort core port ofn ot ifn it (h, s) = Inr (h', s')"
      and o': "ofn' = ofn \<or> ofn' = None" and i': "ifn' = ifn \<or> ifn' = None"
  shows "\<exists>r. bindPort core port ofn' ot' ifn' it' (h, s) = Inr r"
  using ok
proof (cases rule: bindPort_InrE)
  case (bound on inn d1 d2)
  define on' where "on' = (if ofn' = None then ''outboundActionObjectOnPort'' @ str_int port else on)"
  define inn' where "inn' = (case ifn' of None \<Rightarrow> ''inboundActionObjectOnPort'' @ str_int port
      | Some f \<Rightarrow> if f < length (types h) then tname (types h ! f) else on')"
  have on'_cases: "on' = ''outboundActionObjectOnPort'' @ str_int port \<or> on' = on"
    by (simp add: on'_def)
  have inn'_cases: "inn' = ''inboundActionObjectOnPort'' @ str_int port \<or> inn' = inn \<or> inn' = on'"
  proof (cases ifn')
    case None
    then show ?thesis by (simp add: inn'_def)
  next
    case (Some f)
    with i' have "ifn = Some f" by auto
    with bound(6) have "inn = (if f < length (types h) then tname (types h ! f) else on)" by blast
    with Some show ?thesis by (simp add: inn'_def)
  qed
  show ?thesis
  proof (rule bindPort_InrI[where on = on' and inn = inn' and ?d1.0 = d1 and ?d2.0 = d2])
    show "ofn' = None \<longrightarrow> on' = ''outboundActionObjectOnPort'' @ str_int port"
      by (simp add: on'_def)
    show "\<forall>f. ofn' = Some f \<longrightarrow> f < length (types h) \<and> on' = tname (types h ! f)"
      using o' bound(4) by (auto simp: on'_def)
    show "ifn' = None \<longrightarrow> inn' = ''inboundActionObjectOnPort'' @ str_int port"
      by (simp add: inn'_def)
    show "\<forall>f. ifn' = Some f \<longrightarrow> f < Suc (length (types h)) \<and>
                       inn' = (if f < length (types h) then tname (types h ! f) else on')"
      using i' bound(6) by (auto simp: inn'_def)
    show "map_of (idict s) ''addDerivedType'' = None" by (rule bound(7))
    show "on' \<noteq> ''addDerivedType''"
      using on'_cases bound(8) default_names_distinct(1)[of "str_int port"] by metis
    show "on' \<noteq> ''_outboundPortTable_''"
      using on'_cases bound(9) default_names_distinct(2)[of "str_int port"] by metis
    show "on' \<noteq> ''_inboundPortTable_''"
      using on'_cases bound(11) default_names_distinct(3)[of "str_int port"] by metis
    show "inn' \<noteq> ''_outboundPortTable_''"
      using inn'_cases on'_cases bound(9,10) default_names_distinct(2,4)[of "str_int port"] by metis
    show "inn' \<noteq> ''_inboundPortTable_''"
      using inn'_cases on'_cases bound(11,12) default_names_distinct(3,5)[of "str_int port"] by metis
    show "map_of (idict s) ''_outboundPortTable_'' = Some (DictV d1)" by (rule bound(13))
    show "map_of (idict s) ''_inboundPortTable_'' = Some (DictV d2)" by (rule bound(14))
  qed
qed

lemma str_int_7: "str_int 7 = ''7''"
  by (simp add: str_int_def str_nat.simps)

lemmas example_simps =
  example_heap_def example_node_def example_core_def example_heap1_def example_node1_def
  example_heap2_def example_node2_def str_int_7 bound_class_def
  outbound_base_def inbound_base_def inbound_record_def template_or_empty_def emptyTemplate_def
  setattr_self_def

lemma example_first_binding:
  "bindPort example_core 7 (Some 2) NoneV None NoneV (example_heap, example_node) =
     Inr (example_heap1, example_node1)"
  by (subst bindPort_eq[where on = "''identifyRequest''" and inn = "''inboundActionObjectOnPort7''"
        and ?d1.0 = "[]" and ?d2.0 = "[]"])
     (simp_all add: example_simps)



lemma str_int_5: "str_int 5 = ''5''"
  by (simp add: str_int_def str_nat.simps)

lemma example_other_binding:
  "bindPort example_core 5 (Some 2) NoneV None NoneV (example_heap1, example_node) =
     Inr (example_heap3, example_node3)"
  by (subst bindPort_eq[where on = "''identifyRequest''" and inn = "''inboundActionObjectOnPort5''"
        and ?d1.0 = "[]" and ?d2.0 = "[]"])
     (simp_all add: example_simps example_heap3_def example_node3_def str_int_5)

lemma example_lengths:
  "length (types example_heap) = 3" "length (types example_heap1) = 5"
  "length (events example_heap) = 0"
  by (simp_all add: example_heap_def example_heap1_def)

section \<open>Lemmas about the lifecycle\<close>

lemma then_r_Inr_right [simp]: "then_r m Inr = m" "then_r m (\<lambda>x. Inr x) = m"
  by (cases m; simp)+

lemma then_r_run_schedule_Nil [simp]: "then_r m (run_schedule a k []) = m"
  by (cases m) simp_all

lemma run_schedule_fun:
  "run_schedule a k [] = Inr"
  "run_schedule a k (e # es) = (\<lambda>w. then_r (call_stage a k e w) (run_schedule a k es))"
  by (rule ext, simp)+

lemma run_schedule_append:
  "run_schedule a k (xs @ ys) w = then_r (run_schedule a k xs w) (run_schedule a k ys)"
proof (induction xs arbitrary: w)
  case Nil
  show ?case by simp
next
  case (Cons e es)
  show ?case
    by (cases "call_stage a k e w") (simp_all add: Cons.IH)
qed

lemma run_level_schedule:
  "run_schedule a k (level_schedule c) =
     (\<lambda>w. then_r (run_init c a k w) (\<lambda>w2.
          then_r (run_stage (c_initPackets (cdict c)) w2) (\<lambda>w3.
          then_r (run_stage (c_initPorts (cdict c)) w3) (\<lambda>w4.
            run_stage (c_onLoad (cdict c)) w4))))"
proof -
  have 1: "run_schedule a k (map (Pair c) (filter (defines_stage c) [OnLoad])) =
      (\<lambda>w4. run_stage (c_onLoad (cdict c)) w4)"
    by (rule ext) (cases "c_onLoad (cdict c)"; simp add: run_stage_def)
  have 2: "run_schedule a k (map (Pair c) (filter (defines_stage c) [InitPorts, OnLoad])) =
      (\<lambda>w3. then_r (run_stage (c_initPorts (cdict c)) w3) (\<lambda>w4. run_stage (c_onLoad (cdict c)) w4))"
  proof (rule ext)
    fix w
    have "filter (defines_stage c) [InitPorts, OnLoad] =
        (if c_initPorts (cdict c) = None then [] else [InitPorts]) @ filter (defines_stage c) [OnLoad]"
      by simp
    then show "run_schedule a k (map (Pair c) (filter (defines_stage c) [InitPorts, OnLoad])) w =
        then_r (run_stage (c_initPorts (cdict c)) w) (\<lambda>w4. run_stage (c_onLoad (cdict c)) w4)"
      unfolding 1[symmetric]
      by (cases "c_initPorts (cdict c)") (simp_all add: run_stage_def del: filter.simps)
  qed
  have 3: "run_schedule a k (map (Pair c) (filter (defines_stage c) [InitPackets, InitPorts, OnLoad])) =
      (\<lambda>w2. then_r (run_stage (c_initPackets (cdict c)) w2) (\<lambda>w3.
        then_r (run_stage (c_initPorts (cdict c)) w3) (\<lambda>w4. run_stage (c_onLoad (cdict c)) w4)))"
  proof (rule ext)
    fix w
    have "filter (defines_stage c) [InitPackets, InitPorts, OnLoad] =
        (if c_initPackets (cdict c) = None then [] else [InitPackets]) @
        filter (defines_stage c) [InitPorts, OnLoad]"
      by simp
    then show "run_schedule a k (map (Pair c) (filter (defines_stage c) [InitPackets, InitPorts, OnLoad])) w =
        then_r (run_stage (c_initPackets (cdict c)) w) (\<lambda>w3.
          then_r (run_stage (c_initPorts (cdict c)) w3) (\<lambda>w4. run_stage (c_onLoad (cdict c)) w4))"
      unfolding 2[symmetric]
      by (cases "c_initPackets (cdict c)") (simp_all add: run_stage_def del: filter.simps)
  qed
  show ?thesis
  proof (rule ext)
    fix w
    have "filter (defines_stage c) [Init, InitPackets, InitPorts, OnLoad] =
        (if c_init (cdict c) = None then [] else [Init]) @
        filter (defines_stage c) [InitPackets, InitPorts, OnLoad]"
      by simp
    then show "run_schedule a k (level_schedule c) w =
        then_r (run_init c a k w) (\<lambda>w2.
          then_r (run_stage (c_initPackets (cdict c)) w2) (\<lambda>w3.
          then_r (run_stage (c_initPorts (cdict c)) w3) (\<lambda>w4.
            run_stage (c_onLoad (cdict c)) w4)))"
      unfolding 3[symmetric] level_schedule_def
      by (cases "c_init (cdict c)") (simp_all add: run_init_def del: filter.simps)
  qed
qed

lemma recursiveInit_binding_error:
  "''self'' \<in> set (map fst k) \<or> ''recursionDepth'' \<in> set (map fst k) \<Longrightarrow>
   recursiveInit klass d a k w = Inl TypeError"
  by (subst recursiveInit.simps) simp

lemma recursiveInit_visits:
  assumes nc: "''self'' \<notin> set (map fst k)" "''recursionDepth'' \<notin> set (map fst k)"
  shows "recursiveInit klass d a k w =
     (case visited_levels k klass d of
        Inl e \<Rightarrow> Inl e
      | Inr ls \<Rightarrow> run_schedule a k (concat (map level_schedule ls)) w)"
  using nc
proof (induction k klass d rule: visited_levels.induct)
  case (1 kwargs klass d)
  note nc = "1.prems"
  show ?case
  proof (cases "length (mro_of klass) \<le> d + 1")
    case True
    then show ?thesis
      by (subst recursiveInit.simps, subst visited_levels.simps) (use nc in simp)
  next
    case False
    show ?thesis
    proof (cases "resolve_recursiveInit (mro_of klass ! (d + 1))")
      case None
      with False show ?thesis
        by (subst recursiveInit.simps, subst visited_levels.simps) (use nc in simp)
    next
      case (Some r)
      show ?thesis
      proof (cases r)
        case DummyRecursiveInit
        with Some False show ?thesis
          by (subst recursiveInit.simps, subst visited_levels.simps)
             (use nc in \<open>simp add: run_level_schedule\<close>)
      next
        case GestaltRecursiveInit
        note IH = "1.IH"[OF False Some GestaltRecursiveInit nc]
        show ?thesis
        proof (cases "visited_levels kwargs klass (d + 1)")
          case (Inl e)
          with IH Some GestaltRecursiveInit False show ?thesis
            by (subst recursiveInit.simps, subst visited_levels.simps) (use nc in simp)
        next
          case (Inr ls)
          with IH Some GestaltRecursiveInit False show ?thesis
            by (subst recursiveInit.simps, subst visited_levels.simps)
               (use nc in \<open>simp add: run_schedule_append run_level_schedule\<close>)
        qed
      qed
    qed
  qed
qed

lemma visited_levels_prefix:
  assumes mro: "mro_of klass = cs @ r # rest"
      and g: "\<forall>c\<in>set (tl cs). resolve_recursiveInit c = Some GestaltRecursiveInit"
      and r: "resolve_recursiveInit r = Some DummyRecursiveInit"
  shows "d < length cs \<Longrightarrow>
         visited_levels k klass d =
           (if ''self'' \<in> set (map fst k) \<or> ''_recursionDepth_'' \<in> set (map fst k)
            then Inl TypeError else Inr (rev (drop d cs)))"
proof (induction "length cs - d" arbitrary: d)
  case 0
  then show ?case by simp
next
  case (Suc n)
  have len: "\<not> length (mro_of klass) \<le> d + 1"
    using Suc.prems by (simp add: mro)
  have here: "mro_of klass ! d = cs ! d"
    using Suc.prems by (simp add: mro nth_append)
  show ?case
  proof (cases "d + 1 < length cs")
    case True
    have next_level: "mro_of klass ! (d + 1) = cs ! (d + 1)"
      using True by (simp add: mro nth_append)
    from True have "cs ! (d + 1) \<in> set (tl cs)"
      by (cases cs) (auto simp: nth_Cons')
    with g have res: "resolve_recursiveInit (mro_of klass ! (d + 1)) = Some GestaltRecursiveInit"
      unfolding next_level by blast
    from Suc.hyps(2) have "n = length cs - (d + 1)" by simp
    from Suc.hyps(1)[OF this True]
    have IH: "visited_levels k klass (d + 1) =
        (if ''self'' \<in> set (map fst k) \<or> ''_recursionDepth_'' \<in> set (map fst k)
         then Inl TypeError else Inr (rev (drop (d + 1) cs)))" .
    have dr: "drop d cs = cs ! d # drop (d + 1) cs"
      using Suc.prems by (simp add: Cons_nth_drop_Suc)
    show ?thesis
      by (subst visited_levels.simps)
         (use len in \<open>simp add: res[simplified] IH[simplified] here dr\<close>)
  next
    case False
    with Suc.prems have d: "d + 1 = length cs" by simp
    have next_level: "mro_of klass ! (d + 1) = r"
      by (simp add: mro nth_append d[symmetric])
    have dr: "drop d cs = [cs ! d]"
      using d Suc.prems by (metis Cons_nth_drop_Suc Suc_eq_plus1 drop_all order_refl)
    show ?thesis
      by (subst visited_levels.simps)
         (use len in \<open>simp add: next_level[simplified] r here dr\<close>)
  qed
qed

lemma resolve_class_with_base:
  "resolve_recursiveInit (class_with_base d p) =
     (case c_recursiveInit d of Some x \<Rightarrow> Some x | None \<Rightarrow> resolve_recursiveInit p)"
  by (simp add: resolve_recursiveInit_def class_with_base_def mro_of_def split: option.splits)

lemma resolve_framework:
  "resolve_recursiveInit baseGestaltNode = Some GestaltRecursiveInit"
  "resolve_recursiveInit baseVirtualNode = Some DummyRecursiveInit"
  by (simp_all add: baseGestaltNode_def baseVirtualNode_def resolve_class_with_base)

lemma resolve_node_class:
  "\<forall>d\<in>set ds. c_recursiveInit d = None \<Longrightarrow>
   resolve_recursiveInit (node_class ds) = Some GestaltRecursiveInit"
  by (induction ds) (simp_all add: resolve_framework resolve_class_with_base)

lemma mro_of_class_with_base: "mro_of (class_with_base d p) = class_with_base d p # mro_of p"
  by (simp add: class_with_base_def mro_of_def)

lemma mro_of_framework:
  "mro_of baseGestaltNode = [baseGestaltNode, baseVirtualNode, object_class]"
  by (simp add: baseGestaltNode_def baseVirtualNode_def object_class_def mro_of_class_with_base)
     (simp add: mro_of_def)

lemma mro_of_node_class:
  "mro_of (node_class ds) = chain_levels ds @ [baseVirtualNode, object_class]"
  by (induction ds) (simp_all add: mro_of_framework mro_of_class_with_base)

lemma resolve_chain_levels:
  "\<forall>d\<in>set ds. c_recursiveInit d = None \<Longrightarrow>
   \<forall>c\<in>set (chain_levels ds). resolve_recursiveInit c = Some GestaltRecursiveInit"
proof (induction ds)
  case Nil
  show ?case by (simp add: resolve_framework)
next
  case (Cons d ds)
  from Cons have "resolve_recursiveInit (node_class (d # ds)) = Some GestaltRecursiveInit"
    by (intro resolve_node_class) simp
  with Cons show ?case by simp
qed

lemma chain_levels_nonempty: "chain_levels ds \<noteq> []"
  by (cases ds) simp_all

lemma spec_schedule_append:
  "spec_schedule (xs @ ys) = spec_schedule ys @ spec_schedule xs"
  by (simp add: spec_schedule_def)

lemma spec_schedule_roots:
  "spec_schedule [baseVirtualNode, object_class] = []"
  by (simp add: spec_schedule_def level_schedule_def baseVirtualNode_def object_class_def
        class_with_base_def)

lemma spec_schedule_node_class:
  "spec_schedule (mro_of (node_class ds)) = spec_schedule (chain_levels ds)"
  by (simp add: mro_of_node_class spec_schedule_append spec_schedule_roots)

lemma visited_levels_node_class:
  assumes "\<forall>d\<in>set ds. c_recursiveInit d = None"
  shows "visited_levels k (node_class ds) 0 =
           (if ''self'' \<in> set (map fst k) \<or> ''_recursionDepth_'' \<in> set (map fst k)
            then Inl TypeError else Inr (rev (chain_levels ds)))"
proof -
  have g: "\<forall>c\<in>set (tl (chain_levels ds)). resolve_recursiveInit c = Some GestaltRecursiveInit"
    using resolve_chain_levels[OF assms] chain_levels_nonempty[of ds]
    by (metis list.set_sel(2))
  have "0 < length (chain_levels ds)"
    using chain_levels_nonempty[of ds] by simp
  from visited_levels_prefix[OF _ g resolve_framework(2) this, of "node_class ds" "[object_class]" k]
  show ?thesis
    by (simp add: mro_of_node_class)
qed

lemma kwargs_of_roundtrip: "kwargs_of (map (\<lambda>(n, v). (StrV n, v)) k) = Inr k"
  by (induction k) auto

lemma lifecycle_init_levels:
  assumes r: "map_of (idict s) ''_recursiveInit_'' = None"
      and a: "map_of (idict s) ''_initArgs_'' = Some (TupleV a)"
      and k: "map_of (idict s) ''_initKwargs_'' = Some (DictV (map (\<lambda>(n, v). (StrV n, v)) k))"
  shows "lifecycle_init klass (h, s) =
     (case lifecycle_levels k klass of
        Inl e \<Rightarrow> Inl e
      | Inr ls \<Rightarrow>
          run_schedule a k (concat (map level_schedule ls))
            (h, setattr_self ''_inboundPortTable_'' (DictV [])
                  (setattr_self ''_outboundPortTable_'' (DictV []) s)))"
proof -
  define s2 where "s2 = setattr_self ''_inboundPortTable_'' (DictV [])
                 (setattr_self ''_outboundPortTable_'' (DictV []) s)"
  have m: "method_of_self s2 ''_recursiveInit_'' = Inr ()"
    using r by (simp add: method_of_self_def s2_def map_of_setattr_self)
  have ga: "getattr_self s2 ''_initArgs_'' = Inr (TupleV a)"
    using a by (simp add: getattr_self_def s2_def map_of_setattr_self)
  have gk: "getattr_self s2 ''_initKwargs_'' = Inr (DictV (map (\<lambda>(n, v). (StrV n, v)) k))"
    using k by (simp add: getattr_self_def s2_def map_of_setattr_self)
  have u: "unpack_args (TupleV a) = Inr a"
    "unpack_kwargs (DictV (map (\<lambda>(n, v). (StrV n, v)) k)) = Inr k"
    by (simp_all add: unpack_args_def unpack_kwargs_def kwargs_of_roundtrip)
  show ?thesis
  proof (cases "resolve_recursiveInit klass")
    case None
    then show ?thesis
      unfolding lifecycle_init_def prod.case Let_def s2_def[symmetric] m lifecycle_levels_def
      by simp
  next
    case (Some x)
    show ?thesis
    proof (cases x)
      case DummyRecursiveInit
      with Some show ?thesis
        unfolding lifecycle_init_def prod.case Let_def s2_def[symmetric] m ga gk lifecycle_levels_def
        by (simp add: u)
    next
      case GestaltRecursiveInit
      show ?thesis
      proof (cases "''self'' \<in> set (map fst k) \<or> ''recursionDepth'' \<in> set (map fst k)")
        case True
        with Some GestaltRecursiveInit recursiveInit_binding_error[OF True] show ?thesis
          unfolding lifecycle_init_def prod.case Let_def s2_def[symmetric] m ga gk lifecycle_levels_def
          by (simp add: u)
      next
        case False
        then have nc: "''self'' \<notin> set (map fst k)" "''recursionDepth'' \<notin> set (map fst k)"
          by simp_all
        from Some GestaltRecursiveInit False recursiveInit_visits[OF nc, of klass 0 a "(h, s2)"]
        show ?thesis
          unfolding lifecycle_init_def prod.case Let_def s2_def[symmetric] m ga gk lifecycle_levels_def
          by (simp add: u)
      qed
    qed
  qed
qed

lemma lifecycle_levels_node_class:
  assumes "\<forall>d\<in>set ds. c_recursiveInit d = None"
  shows "lifecycle_levels k (node_class ds) =
           (if ''self'' \<in> set (map fst k) \<or> ''recursionDepth'' \<in> set (map fst k)
               \<or> ''_recursionDepth_'' \<in> set (map fst k)
            then Inl TypeError else Inr (rev (chain_levels ds)))"
  unfolding lifecycle_levels_def resolve_node_class[OF assms] visited_levels_node_class[OF assms]
  by simp

lemma baseVirtualNode_init_InrD:
  assumes "baseVirtualNode_init args kwargs \<lparr>cattrs = ca, idict = []\<rparr> = Inr self"
  shows "''self'' \<notin> set (map fst kwargs)"
    and "map_of (idict self) ''_recursiveInit_'' = None"
    and "map_of (idict self) ''_initArgs_'' = Some (TupleV args)"
    and "map_of (idict self) ''_initKwargs_'' = Some (DictV (map (\<lambda>(n, v). (StrV n, v)) kwargs))"
  using assms
  by (auto simp: baseVirtualNode_init_def setattr_self_def split: if_splits)

declare node_class.simps [simp del]

lemma cdict_class_with_base [simp]: "cdict (class_with_base d p) = d"
  by (simp add: class_with_base_def)

lemma cdict_node_class [simp]: "cdict (node_class (d # ds)) = d"
  by (simp add: node_class.simps)


lemma map_of_setattr_self_other:
  "b \<noteq> a \<Longrightarrow> map_of (idict (setattr_self a v s)) b = map_of (idict s) b"
  by (simp add: map_of_setattr_self)

lemma map_of_setattr_self_same:
  "map_of (idict (setattr_self a v s)) a = Some v"
  by (simp add: map_of_setattr_self)

lemma getattr_self_idict:
  "map_of (idict s) a = Some v \<Longrightarrow> getattr_self s a = Inr v"
  by (simp add: getattr_self_def)


lemma run_baseGestaltNode_level:
  "run_schedule a k (level_schedule baseGestaltNode) = Inr"
  unfolding run_level_schedule
  by (rule ext) (simp add: run_init_def run_stage_def baseGestaltNode_def class_with_base_def)

lemma level_schedule_examples:
  "level_schedule (node_class [example_user]) =
     [(node_class [example_user], Init), (node_class [example_user], OnLoad)]"
  "level_schedule (node_class [example_derived, example_user]) =
     [(node_class [example_derived, example_user], InitPackets)]"
  "level_schedule example_mixed = []"
  "level_schedule example_mixin = [(example_mixin, OnLoad)]"
  by (simp_all add: level_schedule_def example_mixed_def example_mixin_def)
     (simp_all add: example_user_def example_derived_def)

lemma call_stage_examples:
  "call_stage a k (node_class [example_user], Init) (h, s) =
     Inr (h, setattr_self ''seen'' (TupleV [TupleV a, DictV (map (\<lambda>(k, v). (StrV k, v)) k)]) s)"
  "call_stage a k (node_class [example_user], OnLoad) (h, s) =
     Inr (h, setattr_self ''loaded'' (IntV 1) s)"
  "call_stage a k (node_class [example_derived, example_user], InitPackets) (h, s) =
     Inr (h, setattr_self ''derivedPackets'' (IntV 2) s)"
  "call_stage a k (example_mixin, OnLoad) (h, s) =
     Inr (h, setattr_self ''mixinLoaded'' (IntV 1) s)"
  by (simp_all add: example_mixin_def) (simp_all add: example_user_def example_derived_def)


lemma example_chain_run:
  "run_schedule a k (spec_schedule (mro_of (node_class [example_derived, example_user]))) (h, s) =
   Inr (h, setattr_self ''derivedPackets'' (IntV 2)
            (setattr_self ''loaded'' (IntV 1)
            (setattr_self ''seen'' (TupleV [TupleV a, DictV (map (\<lambda>(k, v). (StrV k, v)) k)]) s)))"
  unfolding spec_schedule_node_class
  by (simp add: spec_schedule_def run_schedule_append run_baseGestaltNode_level
        level_schedule_examples call_stage_examples del: call_stage.simps)






lemma recursiveInit_node_class:
  assumes us: "\<forall>d\<in>set users. c_recursiveInit d = None"
      and nc: "''self'' \<notin> set (map fst k)" "''recursionDepth'' \<notin> set (map fst k)"
              "''_recursionDepth_'' \<notin> set (map fst k)"
  shows "recursiveInit (node_class users) 0 a k w =
         run_schedule a k (spec_schedule (mro_of (node_class users))) w"
  unfolding recursiveInit_visits[OF nc(1,2)] visited_levels_node_class[OF us] spec_schedule_node_class
  using nc by (simp add: spec_schedule_def)






lemma example_self_lookups:
  "map_of (idict example_self) ''_recursiveInit_'' = None"
  "map_of (idict example_self) ''_initArgs_'' = Some (TupleV [IntV 3])"
  "map_of (idict example_self) ''_initKwargs_'' =
     Some (DictV (map (\<lambda>(n, v). (StrV n, v)) [(''baud'', IntV 9600)]))"
  "map_of (idict example_self) ''_outboundPortTable_'' = None"
  by (simp_all add: example_self_def)

lemma example_users:
  "\<forall>d\<in>set [example_derived, example_user]. c_recursiveInit d = None"
  by (simp add: example_user_def example_derived_def)

lemma gestaltNode_node_class:
  "gestaltNode core =
     node_class [\<lparr>cname = ''gestaltNode'', c_recursiveInit = None,
               c_init = Some gestaltNode_init, c_initPackets = Some gestaltNode_initPackets,
               c_initPorts = Some (gestaltNode_initPorts core), c_onLoad = None\<rparr>]"
  by (simp add: gestaltNode_def node_class.simps)

lemma gestaltNode_schedule:
  "spec_schedule (mro_of (gestaltNode core)) =
     level_schedule baseGestaltNode @
     [(gestaltNode core, Init), (gestaltNode core, InitPackets), (gestaltNode core, InitPorts)]"
proof -
  have "level_schedule (gestaltNode core) =
      [(gestaltNode core, Init), (gestaltNode core, InitPackets), (gestaltNode core, InitPorts)]"
    by (simp add: level_schedule_def gestaltNode_def)
  then show ?thesis
    unfolding gestaltNode_node_class spec_schedule_node_class
    by (simp add: spec_schedule_def)
qed

section \<open>Properties of the lifecycle and of the port binder\<close>




text \<open>
  Claim C2. Every attribute a binding writes goes to one of the two class objects
  that the call itself appends to the store; their bases are the supplied (or
  generic) handler classes. Every class object that was in the store before the
  call, hence the supplied base class and every derived class of any other node,
  is left as it was, and attribute lookup through it gives what it gave before.
  Stated for two successive bindings, on node \<open>a\<close> and then on node \<open>b\<close>,
  with any arguments, in particular the same handler class on different ports.
\<close>

theorem bindPort_frame:
  assumes ok1: "bindPort core p1 ofn1 ot1 ifn1 it1 (h, a) = Inr (h1, a1)"
      and ok2: "bindPort core p2 ofn2 ot2 ifn2 it2 (h1, b) = Inr (h2, b1)"
  shows "take (length (types h)) (types h1) = types h
       \<and> length (types h1) = length (types h) + 2
       \<and> tbase (types h1 ! length (types h)) = Some (outbound_base core ofn1)
       \<and> tbase (types h1 ! Suc (length (types h))) = Some (inbound_base core ifn1)
       \<and> (\<forall>t<length (types h). \<forall>x. getattr_type (types h1) t x = getattr_type (types h) t x)
       \<and> take (length (types h1)) (types h2) = types h1
       \<and> length (types h2) = length (types h1) + 2
       \<and> (\<forall>t<length (types h1). \<forall>x. getattr_type (types h2) t x = getattr_type (types h1) t x)"
proof -
  from ok1 have 1: "take (length (types h)) (types h1) = types h
       \<and> length (types h1) = length (types h) + 2
       \<and> tbase (types h1 ! length (types h)) = Some (outbound_base core ofn1)
       \<and> tbase (types h1 ! Suc (length (types h))) = Some (inbound_base core ifn1)
       \<and> (\<forall>t<length (types h). \<forall>x. getattr_type (types h1) t x = getattr_type (types h) t x)"
  proof (cases rule: bindPort_InrE)
    case (bound on inn d1 d2)
    show ?thesis
      unfolding bound(1)
      by (simp add: getattr_type_prefix nth_append)
  qed
  from ok2 have 2: "take (length (types h1)) (types h2) = types h1
       \<and> length (types h2) = length (types h1) + 2
       \<and> (\<forall>t<length (types h1). \<forall>x. getattr_type (types h2) t x = getattr_type (types h1) t x)"
  proof (cases rule: bindPort_InrE)
    case (bound on inn d1 d2)
    show ?thesis
      unfolding bound(1)
      by (simp add: getattr_type_prefix)
  qed
  from 1 2 show ?thesis by blast
qed

theorem bindPort_frame_witness:
  "bindPort example_core 7 (Some 2) NoneV None NoneV (example_heap, example_node) =
     Inr (example_heap1, example_node1)
   \<and> bindPort example_core 5 (Some 2) NoneV None NoneV (example_heap1, example_node) =
     Inr (example_heap3, example_node3)
   \<and> take 3 (types example_heap1) = types example_heap
   \<and> take 5 (types example_heap3) = types example_heap1
   \<and> tbase (types example_heap1 ! 3) = Some 2
   \<and> getattr_type (types example_heap3) 3 ''_port_'' = getattr_type (types example_heap1) 3 ''_port_''
   \<and> getattr_type (types example_heap3) 2 ''_port_'' = getattr_type (types example_heap) 2 ''_port_''"
  using example_first_binding example_other_binding
    bindPort_frame[OF example_first_binding example_other_binding]
  by (simp add: example_lengths eval_nat_numeral outbound_base_def)

text \<open>
  Claim C3. When \<^verbatim>\<open>outboundFunction\<close> is omitted the outbound class derives from
  \<^verbatim>\<open>core.genericOutboundActionObjectBlockOnReply\<close>, when
  \<^verbatim>\<open>inboundFunction\<close> is omitted the inbound class derives from
  \<^verbatim>\<open>core.genericInboundActionObject\<close>, and an omitted template is replaced
  by the empty template named after the port. Omission is never an error: where a
  call returns, the call with any of its four optional arguments omitted returns
  too, and on a node whose two tables exist and whose \<^verbatim>\<open>addDerivedType\<close> is
  not shadowed the call with all four omitted returns.
\<close>

theorem bindPort_defaults:
  "(bindPort core port ofn ot ifn it (h, s) = Inr (h', s') \<longrightarrow>
      (ofn = None \<longrightarrow> tbase (types h' ! length (types h)) = Some (genericOutboundActionObjectBlockOnReply core))
    \<and> (ifn = None \<longrightarrow> tbase (types h' ! Suc (length (types h))) = Some (genericInboundActionObject core))
    \<and> (ot = NoneV \<longrightarrow>
          getattr_type (types h') (length (types h)) ''_outboundTemplate_'' =
            Some (emptyTemplate (''outboundTemplateOnPort'' @ str_int port))
        \<and> getattr_type (types h') (Suc (length (types h))) ''_outboundTemplate_'' =
            Some (emptyTemplate (''outboundTemplateOnPort'' @ str_int port)))
    \<and> (it = NoneV \<longrightarrow>
          getattr_type (types h') (length (types h)) ''_inboundTemplate_'' =
            Some (emptyTemplate (''inboundTemplateOnPort'' @ str_int port))
        \<and> getattr_type (types h') (Suc (length (types h))) ''_inboundTemplate_'' =
            Some (emptyTemplate (''inboundTemplateOnPort'' @ str_int port)))
    \<and> (\<forall>ofn' ot' ifn' it'.
          (ofn' = ofn \<or> ofn' = None) \<and> (ot' = ot \<or> ot' = NoneV) \<and>
          (ifn' = ifn \<or> ifn' = None) \<and> (it' = it \<or> it' = NoneV) \<longrightarrow>
          (\<exists>r. bindPort core port ofn' ot' ifn' it' (h, s) = Inr r)))
 \<and> (map_of (idict s) ''addDerivedType'' = None
      \<and> map_of (idict s) ''_outboundPortTable_'' = Some (DictV d1)
      \<and> map_of (idict s) ''_inboundPortTable_'' = Some (DictV d2) \<longrightarrow>
      (\<exists>r. bindPort core port None NoneV None NoneV (h, s) = Inr r))"
proof (intro conjI impI)
  assume ok: "bindPort core port ofn ot ifn it (h, s) = Inr (h', s')"
  then show "\<forall>ofn' ot' ifn' it'.
          (ofn' = ofn \<or> ofn' = None) \<and> (ot' = ot \<or> ot' = NoneV) \<and>
          (ifn' = ifn \<or> ifn' = None) \<and> (it' = it \<or> it' = NoneV) \<longrightarrow>
          (\<exists>r. bindPort core port ofn' ot' ifn' it' (h, s) = Inr r)"
    using bindPort_omission_succeeds by blast
  from ok show "tbase (types h' ! length (types h)) = Some (genericOutboundActionObjectBlockOnReply core)"
    if "ofn = None"
  proof (cases rule: bindPort_InrE)
    case (bound on inn d1 d2)
    show ?thesis unfolding bound(1) using that by (simp add: outbound_base_def)
  qed
  from ok show "tbase (types h' ! Suc (length (types h))) = Some (genericInboundActionObject core)"
    if "ifn = None"
  proof (cases rule: bindPort_InrE)
    case (bound on inn d1 d2)
    show ?thesis unfolding bound(1) using that by (simp add: inbound_base_def nth_append)
  qed
  from ok show "getattr_type (types h') (length (types h)) ''_outboundTemplate_'' =
            Some (emptyTemplate (''outboundTemplateOnPort'' @ str_int port))" if "ot = NoneV"
  proof (cases rule: bindPort_InrE)
    case (bound on inn d1 d2)
    show ?thesis unfolding bound(1) using that
      by (simp add: getattr_type_new0 template_or_empty_simps)
  qed
  from ok show "getattr_type (types h') (Suc (length (types h))) ''_outboundTemplate_'' =
            Some (emptyTemplate (''outboundTemplateOnPort'' @ str_int port))" if "ot = NoneV"
  proof (cases rule: bindPort_InrE)
    case (bound on inn d1 d2)
    show ?thesis unfolding bound(1) using that
      by (simp add: getattr_type_new1 template_or_empty_simps)
  qed
  from ok show "getattr_type (types h') (length (types h)) ''_inboundTemplate_'' =
            Some (emptyTemplate (''inboundTemplateOnPort'' @ str_int port))" if "it = NoneV"
  proof (cases rule: bindPort_InrE)
    case (bound on inn d1 d2)
    show ?thesis unfolding bound(1) using that
      by (simp add: getattr_type_new0 template_or_empty_simps)
  qed
  from ok show "getattr_type (types h') (Suc (length (types h))) ''_inboundTemplate_'' =
            Some (emptyTemplate (''inboundTemplateOnPort'' @ str_int port))" if "it = NoneV"
  proof (cases rule: bindPort_InrE)
    case (bound on inn d1 d2)
    show ?thesis unfolding bound(1) using that
      by (simp add: getattr_type_new1 template_or_empty_simps)
  qed
next
  assume "map_of (idict s) ''addDerivedType'' = None
      \<and> map_of (idict s) ''_outboundPortTable_'' = Some (DictV d1)
      \<and> map_of (idict s) ''_inboundPortTable_'' = Some (DictV d2)"
  then show "\<exists>r. bindPort core port None NoneV None NoneV (h, s) = Inr r"
    using bindPort_default_handlers_succeed by blast
qed

theorem bindPort_defaults_witness:
  "bindPort example_core 7 (Some 2) NoneV None NoneV (example_heap, example_node) =
     Inr (example_heap1, example_node1)
   \<and> tbase (types example_heap1 ! 4) = Some (genericInboundActionObject example_core)
   \<and> getattr_type (types example_heap1) 3 ''_outboundTemplate_'' = Some (emptyTemplate ''outboundTemplateOnPort7'')
   \<and> (\<exists>h' s'. bindPort example_core 7 None NoneV None NoneV (example_heap, example_node) = Inr (h', s')
     \<and> tbase (types h' ! 3) = Some (genericOutboundActionObjectBlockOnReply example_core)
     \<and> tbase (types h' ! 4) = Some (genericInboundActionObject example_core)
     \<and> getattr_type (types h') 3 ''_outboundTemplate_'' = Some (emptyTemplate ''outboundTemplateOnPort7'')
     \<and> getattr_type (types h') 4 ''_outboundTemplate_'' = Some (emptyTemplate ''outboundTemplateOnPort7'')
     \<and> getattr_type (types h') 3 ''_inboundTemplate_'' = Some (emptyTemplate ''inboundTemplateOnPort7'')
     \<and> getattr_type (types h') 4 ''_inboundTemplate_'' = Some (emptyTemplate ''inboundTemplateOnPort7''))
   \<and> (\<exists>r. bindPort example_core 5 None NoneV None NoneV (example_heap, example_node) = Inr r)"
proof -
  note first = bindPort_defaults[of example_core 7 "Some 2" NoneV None NoneV example_heap example_node
      example_heap1 example_node1]
  from first example_first_binding
  have a: "tbase (types example_heap1 ! 4) = Some (genericInboundActionObject example_core)"
    "getattr_type (types example_heap1) 3 ''_outboundTemplate_'' = Some (emptyTemplate ''outboundTemplateOnPort7'')"
    by (simp_all add: example_lengths eval_nat_numeral str_int_7)
  from first example_first_binding
  have "\<exists>r. bindPort example_core 7 None NoneV None NoneV (example_heap, example_node) = Inr r"
    by blast
  then obtain h' s' where
    ok: "bindPort example_core 7 None NoneV None NoneV (example_heap, example_node) = Inr (h', s')"
    by (metis prod.exhaust)
  from ok bindPort_defaults[of example_core 7 None NoneV None NoneV example_heap example_node h' s']
  have b: "tbase (types h' ! 3) = Some (genericOutboundActionObjectBlockOnReply example_core)
     \<and> tbase (types h' ! 4) = Some (genericInboundActionObject example_core)
     \<and> getattr_type (types h') 3 ''_outboundTemplate_'' = Some (emptyTemplate ''outboundTemplateOnPort7'')
     \<and> getattr_type (types h') 4 ''_outboundTemplate_'' = Some (emptyTemplate ''outboundTemplateOnPort7'')
     \<and> getattr_type (types h') 3 ''_inboundTemplate_'' = Some (emptyTemplate ''inboundTemplateOnPort7'')
     \<and> getattr_type (types h') 4 ''_inboundTemplate_'' = Some (emptyTemplate ''inboundTemplateOnPort7'')"
    by (simp add: example_lengths eval_nat_numeral str_int_7)
  have pre: "map_of (idict example_node) ''addDerivedType'' = None
      \<and> map_of (idict example_node) ''_outboundPortTable_'' = Some (DictV [])
      \<and> map_of (idict example_node) ''_inboundPortTable_'' = Some (DictV [])"
    by (simp add: example_node_def)
  with bindPort_defaults[of example_core 5 None NoneV None NoneV example_heap example_node
      example_heap example_node "[]" "[]"]
  have c: "\<exists>r. bindPort example_core 5 None NoneV None NoneV (example_heap, example_node) = Inr r"
    by blast
  from example_first_binding a ok b c show ?thesis
    by blast
qed




text \<open>
  Claim C5 fails in the branch that generates the inbound handler: the derived
  inbound class inherits from \<^verbatim>\<open>core.genericInboundActionObject\<close>, but the
  value recorded as its \<^verbatim>\<open>_baseActionObject_\<close> is the argument
  \<^verbatim>\<open>inboundFunction\<close>, which is \<^verbatim>\<open>None\<close> there. The outbound class
  records its actual base in both branches.
\<close>

theorem bindPort_inbound_default_records_None:
  assumes ok: "bindPort core port ofn ot None it (h, s) = Inr (h', s')"
  shows "tbase (types h' ! Suc (length (types h))) = Some (genericInboundActionObject core)
       \<and> getattr_type (types h') (Suc (length (types h))) ''_baseActionObject_'' = Some NoneV
       \<and> tbase (types h' ! length (types h)) = Some (outbound_base core ofn)
       \<and> getattr_type (types h') (length (types h)) ''_baseActionObject_'' = Some (TypeRef (outbound_base core ofn))"
  using ok
proof (cases rule: bindPort_InrE)
  case (bound on inn d1 d2)
  show ?thesis
    unfolding bound(1)
    by (simp add: getattr_type_new0 getattr_type_new1 nth_append inbound_base_def inbound_record_def)
qed

theorem bindPort_inbound_default_records_None_witness:
  "bindPort example_core 7 (Some 2) NoneV None NoneV (example_heap, example_node) =
     Inr (example_heap1, example_node1)
   \<and> tbase (types example_heap1 ! 4) = Some (genericInboundActionObject example_core)
   \<and> getattr_type (types example_heap1) 4 ''_baseActionObject_'' = Some NoneV
   \<and> getattr_type (types example_heap1) 3 ''_baseActionObject_'' = Some (TypeRef 2)"
  using example_first_binding bindPort_inbound_default_records_None[OF example_first_binding]
  by (simp add: example_lengths eval_nat_numeral outbound_base_def)

text \<open>
  Claim C6. After a call that returns, the outbound table maps the new derived
  outbound class to the port and the inbound table maps the port to the new
  derived inbound class; every other key of either table keeps its value. The
  outbound entry is one new entry at the end of the table when the new class is
  not yet a key (it never is: the class object is new), and a table with distinct
  keys holds exactly one entry for the port afterwards.
\<close>

theorem bindPort_tables:
  assumes ok: "bindPort core port ofn ot ifn it (h, s) = Inr (h', s')"
  shows "\<exists>d1 d2 d1' d2'.
      map_of (idict s) ''_outboundPortTable_'' = Some (DictV d1)
    \<and> map_of (idict s) ''_inboundPortTable_'' = Some (DictV d2)
    \<and> map_of (idict s') ''_outboundPortTable_'' = Some (DictV d1')
    \<and> map_of (idict s') ''_inboundPortTable_'' = Some (DictV d2')
    \<and> map_of d1' (TypeRef (length (types h))) = Some (IntV port)
    \<and> map_of d2' (IntV port) = Some (TypeRef (Suc (length (types h))))
    \<and> (\<forall>k. k \<noteq> TypeRef (length (types h)) \<longrightarrow> map_of d1' k = map_of d1 k)
    \<and> (\<forall>p. p \<noteq> IntV port \<longrightarrow> map_of d2' p = map_of d2 p)
    \<and> (TypeRef (length (types h)) \<notin> fst ` set d1 \<longrightarrow> d1' = d1 @ [(TypeRef (length (types h)), IntV port)])
    \<and> (distinct (map fst d2) \<longrightarrow>
          distinct (map fst d2') \<and> length (filter (\<lambda>e. fst e = IntV port) d2') = 1)
    \<and> length (types h') = length (types h) + 2"
  using ok
proof (cases rule: bindPort_InrE)
  case (bound on inn d1 d2)
  define d1' where "d1' = AList.update (TypeRef (length (types h))) (IntV port) d1"
  define d2' where "d2' = AList.update (IntV port) (TypeRef (Suc (length (types h)))) d2"
  have o: "map_of (idict s') ''_outboundPortTable_'' = Some (DictV d1')"
    unfolding bound(15) d1'_def by (simp add: map_of_setattr_self)
  have i: "map_of (idict s') ''_inboundPortTable_'' = Some (DictV d2')"
    unfolding bound(15) d2'_def by (simp add: map_of_setattr_self)
  have k: "IntV port \<in> fst ` set d2'"
    unfolding d2'_def by (induction d2) auto
  have props: "map_of d1' (TypeRef (length (types h))) = Some (IntV port)"
    "map_of d2' (IntV port) = Some (TypeRef (Suc (length (types h))))"
    "\<forall>k. k \<noteq> TypeRef (length (types h)) \<longrightarrow> map_of d1' k = map_of d1 k"
    "\<forall>p. p \<noteq> IntV port \<longrightarrow> map_of d2' p = map_of d2 p"
    "TypeRef (length (types h)) \<notin> fst ` set d1 \<longrightarrow> d1' = d1 @ [(TypeRef (length (types h)), IntV port)]"
    "distinct (map fst d2) \<longrightarrow> distinct (map fst d2') \<and> length (filter (\<lambda>e. fst e = IntV port) d2') = 1"
    using k count_key_distinct[of d2' "IntV port"]
    by (simp_all add: d1'_def d2'_def update_conv' update_fresh_append distinct_update)
  have len: "length (types h') = length (types h) + 2"
    by (simp add: bound(1))
  from bound(13,14) o i props len show ?thesis
    by blast
qed

theorem bindPort_tables_witness:
  "bindPort example_core 7 (Some 2) NoneV None NoneV (example_heap, example_node) =
     Inr (example_heap1, example_node1)
   \<and> (\<exists>d1' d2'. map_of (idict example_node1) ''_outboundPortTable_'' = Some (DictV d1')
        \<and> map_of (idict example_node1) ''_inboundPortTable_'' = Some (DictV d2')
        \<and> map_of d1' (TypeRef 3) = Some (IntV 7)
        \<and> map_of d2' (IntV 7) = Some (TypeRef 4)
        \<and> length d1' = 1 \<and> length (filter (\<lambda>e. fst e = IntV 7) d2') = 1)"
proof -
  from bindPort_tables[OF example_first_binding] obtain d1 d2 d1' d2' where
    f: "map_of (idict example_node) ''_outboundPortTable_'' = Some (DictV d1)"
       "map_of (idict example_node) ''_inboundPortTable_'' = Some (DictV d2)"
       "map_of (idict example_node1) ''_outboundPortTable_'' = Some (DictV d1')"
       "map_of (idict example_node1) ''_inboundPortTable_'' = Some (DictV d2')"
       "map_of d1' (TypeRef (length (types example_heap))) = Some (IntV 7)"
       "map_of d2' (IntV 7) = Some (TypeRef (Suc (length (types example_heap))))"
       "TypeRef (length (types example_heap)) \<notin> fst ` set d1 \<longrightarrow>
          d1' = d1 @ [(TypeRef (length (types example_heap)), IntV 7)]"
       "distinct (map fst d2) \<longrightarrow>
          distinct (map fst d2') \<and> length (filter (\<lambda>e. fst e = IntV 7) d2') = 1"
    by blast
  from f(1,2) have e: "d1 = []" "d2 = []"
    by (simp_all add: example_node_def)
  from f(5-8) have "map_of d1' (TypeRef 3) = Some (IntV 7)" "map_of d2' (IntV 7) = Some (TypeRef 4)"
    "length d1' = 1" "length (filter (\<lambda>e. fst e = IntV 7) d2') = 1"
    unfolding e by (simp_all add: example_lengths eval_nat_numeral)
  with f(3,4) example_first_binding show ?thesis
    by blast
qed

text \<open>
  Claim C7. The arguments stored by \<^verbatim>\<open>__init__\<close> are the arguments that
  \<^verbatim>\<open>_init_\<close> passes to the \<^verbatim>\<open>init\<close> of every level that defines it,
  the same at every level, unless a keyword argument is named
  \<^verbatim>\<open>recursionDepth\<close> or \<^verbatim>\<open>_recursionDepth_\<close>: then the call of
  \<^verbatim>\<open>_recursiveInit_\<close> raises \<^verbatim>\<open>TypeError\<close> and no level receives anything.
\<close>

theorem lifecycle_init_replays_constructor_arguments:
  assumes us: "\<forall>c\<in>set users. c_recursiveInit c = None"
      and new: "baseVirtualNode_init args kwargs \<lparr>cattrs = ca, idict = []\<rparr> = Inr self"
  shows "(''recursionDepth'' \<notin> set (map fst kwargs) \<and> ''_recursionDepth_'' \<notin> set (map fst kwargs) \<longrightarrow>
            lifecycle_init (node_class users) (h, self) =
            run_schedule args kwargs (spec_schedule (mro_of (node_class users)))
              (h, setattr_self ''_inboundPortTable_'' (DictV [])
                    (setattr_self ''_outboundPortTable_'' (DictV []) self)))
       \<and> (''recursionDepth'' \<in> set (map fst kwargs) \<or> ''_recursionDepth_'' \<in> set (map fst kwargs) \<longrightarrow>
            lifecycle_init (node_class users) (h, self) = Inl TypeError)"
proof -
  note f = baseVirtualNode_init_InrD[OF new]
  note u = lifecycle_init_levels[OF f(2,3,4), of "node_class users" h]
  show ?thesis
    unfolding u lifecycle_levels_node_class[OF us] spec_schedule_node_class
    using f(1) by (auto simp: spec_schedule_def)
qed

theorem lifecycle_init_replays_constructor_arguments_witness:
  "baseVirtualNode_init [IntV 3] [(''baud'', IntV 9600)] \<lparr>cattrs = [], idict = []\<rparr> = Inr example_self
   \<and> lifecycle_init (node_class [example_derived, example_user]) (example_heap, example_self) =
       Inr (example_heap,
            setattr_self ''derivedPackets'' (IntV 2)
              (setattr_self ''loaded'' (IntV 1)
              (setattr_self ''seen'' (TupleV [TupleV [IntV 3], DictV [(StrV ''baud'', IntV 9600)]])
              (setattr_self ''_inboundPortTable_'' (DictV [])
              (setattr_self ''_outboundPortTable_'' (DictV []) example_self)))))
   \<and> baseVirtualNode_init [] [(''recursionDepth'', IntV 1)] \<lparr>cattrs = [], idict = []\<rparr> = Inr example_bad_self
   \<and> lifecycle_init (node_class [example_derived, example_user]) (example_heap, example_bad_self) =
       Inl TypeError"
proof -
  have good: "baseVirtualNode_init [IntV 3] [(''baud'', IntV 9600)] \<lparr>cattrs = [], idict = []\<rparr> = Inr example_self"
    by (simp add: baseVirtualNode_init_def example_self_def setattr_self_def)
  have bad: "baseVirtualNode_init [] [(''recursionDepth'', IntV 1)] \<lparr>cattrs = [], idict = []\<rparr> = Inr example_bad_self"
    by (simp add: baseVirtualNode_init_def example_bad_self_def setattr_self_def)
  from lifecycle_init_replays_constructor_arguments[OF example_users good, of example_heap]
  have 1: "lifecycle_init (node_class [example_derived, example_user]) (example_heap, example_self) =
       Inr (example_heap,
            setattr_self ''derivedPackets'' (IntV 2)
              (setattr_self ''loaded'' (IntV 1)
              (setattr_self ''seen'' (TupleV [TupleV [IntV 3], DictV [(StrV ''baud'', IntV 9600)]])
              (setattr_self ''_inboundPortTable_'' (DictV [])
              (setattr_self ''_outboundPortTable_'' (DictV []) example_self)))))"
    unfolding example_chain_run by simp
  from lifecycle_init_replays_constructor_arguments[OF example_users bad, of example_heap]
  have 2: "lifecycle_init (node_class [example_derived, example_user]) (example_heap, example_bad_self) =
       Inl TypeError"
    by simp
  from good bad 1 2 show ?thesis by blast
qed

text \<open>
  Claim C8. On the standard node type the lifecycle runs \<^verbatim>\<open>gestaltNode.init\<close>,
  then \<^verbatim>\<open>gestaltNode.initPackets\<close>, then \<^verbatim>\<open>gestaltNode.initPorts\<close>;
  \<^verbatim>\<open>init\<close> sets \<^verbatim>\<open>bootPageSize\<close> to 128, and the
  \<^verbatim>\<open>bootWriteRequest\<close> and \<^verbatim>\<open>bootReadResponse\<close> templates that
  \<^verbatim>\<open>initPackets\<close> then builds carry a \<^verbatim>\<open>pList\<close> field of that width.
\<close>

theorem gestaltNode_page_size_before_packets:
  "recursiveInit (gestaltNode core) 0 [] [] (h, s) =
     then_r (gestaltNode_init [] [] (h, s)) (\<lambda>w1.
     then_r (gestaltNode_initPackets w1) (gestaltNode_initPorts core))
   \<and> gestaltNode_init [] [] (h, s) = Inr (h, setattr_self ''bootPageSize'' (IntV 128) s)
   \<and> (\<exists>s'. gestaltNode_initPackets (h, setattr_self ''bootPageSize'' (IntV 128) s) = Inr (h, s')
        \<and> map_of (idict s') ''bootPageSize'' = Some (IntV 128)
        \<and> map_of (idict s') ''bootWriteRequestPacket'' =
            Some (packets ''template'' [StrV ''bootWriteRequest'',
                    packets ''unsignedInt'' [StrV ''commandCode'', IntV 1],
                    packets ''unsignedInt'' [StrV ''pageNumber'', IntV 2],
                    packets ''pList'' [StrV ''writeData'', IntV 128]])
        \<and> map_of (idict s') ''bootReadResponsePacket'' =
            Some (packets ''template'' [StrV ''bootReadResponse'',
                    packets ''pList'' [StrV ''readData'', IntV 128]]))"
proof (intro conjI)
  have "recursiveInit (gestaltNode core) 0 [] [] (h, s) =
      run_schedule [] [] (spec_schedule (mro_of (gestaltNode core))) (h, s)"
    unfolding gestaltNode_node_class
    by (rule recursiveInit_node_class) simp_all
  then show "recursiveInit (gestaltNode core) 0 [] [] (h, s) =
     then_r (gestaltNode_init [] [] (h, s)) (\<lambda>w1.
     then_r (gestaltNode_initPackets w1) (gestaltNode_initPorts core))"
    unfolding gestaltNode_schedule run_schedule_append run_baseGestaltNode_level
    by (simp add: gestaltNode_def run_schedule_fun)
  show "gestaltNode_init [] [] (h, s) = Inr (h, setattr_self ''bootPageSize'' (IntV 128) s)"
    by (simp add: gestaltNode_init_def)
  define s0 where "s0 = setattr_self ''bootPageSize'' (IntV 128) s"
  have b0: "map_of (idict s0) ''bootPageSize'' = Some (IntV 128)"
    by (simp add: s0_def map_of_setattr_self_same)
  show "\<exists>s'. gestaltNode_initPackets (h, setattr_self ''bootPageSize'' (IntV 128) s) = Inr (h, s')
        \<and> map_of (idict s') ''bootPageSize'' = Some (IntV 128)
        \<and> map_of (idict s') ''bootWriteRequestPacket'' =
            Some (packets ''template'' [StrV ''bootWriteRequest'',
                    packets ''unsignedInt'' [StrV ''commandCode'', IntV 1],
                    packets ''unsignedInt'' [StrV ''pageNumber'', IntV 2],
                    packets ''pList'' [StrV ''writeData'', IntV 128]])
        \<and> map_of (idict s') ''bootReadResponsePacket'' =
            Some (packets ''template'' [StrV ''bootReadResponse'',
                    packets ''pList'' [StrV ''readData'', IntV 128]])"
    unfolding s0_def[symmetric] gestaltNode_initPackets_def
    using b0
    by (simp add: Let_def getattr_self_idict map_of_setattr_self_other map_of_setattr_self_same)
qed

theorem gestaltNode_page_size_before_packets_witness:
  "\<exists>s'. recursiveInit (gestaltNode example_core) 0 [] [] (example_heap, example_node) =
      then_r (gestaltNode_initPackets (example_heap, setattr_self ''bootPageSize'' (IntV 128) example_node))
        (gestaltNode_initPorts example_core)
    \<and> gestaltNode_initPackets (example_heap, setattr_self ''bootPageSize'' (IntV 128) example_node) =
        Inr (example_heap, s')
    \<and> map_of (idict s') ''bootPageSize'' = Some (IntV 128)
    \<and> map_of (idict s') ''bootWriteRequestPacket'' =
            Some (packets ''template'' [StrV ''bootWriteRequest'',
                    packets ''unsignedInt'' [StrV ''commandCode'', IntV 1],
                    packets ''unsignedInt'' [StrV ''pageNumber'', IntV 2],
                    packets ''pList'' [StrV ''writeData'', IntV 128]])"
  using gestaltNode_page_size_before_packets[of example_core example_heap example_node]
  by auto

text \<open>
  Claim C9. \<^verbatim>\<open>_init_\<close> first sets both binding tables of the node to empty
  dictionaries, whatever the node held under those names, and changes no other
  attribute. Whatever the class of the node, \<^verbatim>\<open>_init_\<close> then either raises
  during the descent along the resolution order, before any stage has run, or
  runs the stages of the levels the descent visited, starting from that node:
  the first stage of the most-base level visited already finds both tables,
  empty.
\<close>

theorem lifecycle_init_creates_tables_first:
  assumes r: "map_of (idict s) ''_recursiveInit_'' = None"
      and a: "map_of (idict s) ''_initArgs_'' = Some (TupleV args)"
      and k: "map_of (idict s) ''_initKwargs_'' = Some (DictV (map (\<lambda>(n, v). (StrV n, v)) kwargs))"
  shows "\<exists>s0. lifecycle_init klass (h, s) =
              (case lifecycle_levels kwargs klass of
                 Inl e \<Rightarrow> Inl e
               | Inr ls \<Rightarrow> run_schedule args kwargs (concat (map level_schedule ls)) (h, s0))
            \<and> map_of (idict s0) ''_outboundPortTable_'' = Some (DictV [])
            \<and> map_of (idict s0) ''_inboundPortTable_'' = Some (DictV [])
            \<and> (\<forall>x. x \<noteq> ''_outboundPortTable_'' \<and> x \<noteq> ''_inboundPortTable_'' \<longrightarrow>
                  map_of (idict s0) x = map_of (idict s) x)
            \<and> cattrs s0 = cattrs s"
proof -
  define s0 where "s0 = setattr_self ''_inboundPortTable_'' (DictV [])
                    (setattr_self ''_outboundPortTable_'' (DictV []) s)"
  have run: "lifecycle_init klass (h, s) =
              (case lifecycle_levels kwargs klass of
                 Inl e \<Rightarrow> Inl e
               | Inr ls \<Rightarrow> run_schedule args kwargs (concat (map level_schedule ls)) (h, s0))"
    unfolding s0_def by (rule lifecycle_init_levels[OF r a k])
  have "map_of (idict s0) ''_outboundPortTable_'' = Some (DictV [])"
    "map_of (idict s0) ''_inboundPortTable_'' = Some (DictV [])"
    "\<forall>x. x \<noteq> ''_outboundPortTable_'' \<and> x \<noteq> ''_inboundPortTable_'' \<longrightarrow>
                  map_of (idict s0) x = map_of (idict s) x"
    "cattrs s0 = cattrs s"
    by (simp_all add: s0_def map_of_setattr_self) (simp add: setattr_self_def)
  with run show ?thesis by blast
qed

theorem lifecycle_init_creates_tables_first_witness:
  "map_of (idict example_self) ''_recursiveInit_'' = None
   \<and> map_of (idict example_self) ''_initArgs_'' = Some (TupleV [IntV 3])
   \<and> map_of (idict example_self) ''_initKwargs_'' = Some (DictV [(StrV ''baud'', IntV 9600)])
   \<and> map_of (idict example_self) ''_outboundPortTable_'' = None
   \<and> lifecycle_levels [(''baud'', IntV 9600)] (node_class [example_derived, example_user]) =
       Inr [baseGestaltNode, node_class [example_user], node_class [example_derived, example_user]]
   \<and> (\<exists>s0. lifecycle_init (node_class [example_derived, example_user]) (example_heap, example_self) =
           run_schedule [IntV 3] [(''baud'', IntV 9600)]
             (spec_schedule (mro_of (node_class [example_derived, example_user]))) (example_heap, s0)
         \<and> map_of (idict s0) ''_outboundPortTable_'' = Some (DictV [])
         \<and> map_of (idict s0) ''_inboundPortTable_'' = Some (DictV [])
         \<and> map_of (idict s0) ''_initArgs_'' = Some (TupleV [IntV 3]))"
proof -
  note p = example_self_lookups
  have ll: "lifecycle_levels [(''baud'', IntV 9600)] (node_class [example_derived, example_user]) =
       Inr [baseGestaltNode, node_class [example_user], node_class [example_derived, example_user]]"
    unfolding lifecycle_levels_node_class[OF example_users] by simp
  from lifecycle_init_creates_tables_first[OF p(1,2,3),
      of "node_class [example_derived, example_user]" example_heap]
  obtain s0 where
    s0: "lifecycle_init (node_class [example_derived, example_user]) (example_heap, example_self) =
           (case lifecycle_levels [(''baud'', IntV 9600)] (node_class [example_derived, example_user]) of
              Inl e \<Rightarrow> Inl e
            | Inr ls \<Rightarrow> run_schedule [IntV 3] [(''baud'', IntV 9600)]
                (concat (map level_schedule ls)) (example_heap, s0))"
        "map_of (idict s0) ''_outboundPortTable_'' = Some (DictV [])"
        "map_of (idict s0) ''_inboundPortTable_'' = Some (DictV [])"
        "\<forall>x. x \<noteq> ''_outboundPortTable_'' \<and> x \<noteq> ''_inboundPortTable_'' \<longrightarrow>
              map_of (idict s0) x = map_of (idict example_self) x"
    by blast
  from s0(4) p(2) have i: "map_of (idict s0) ''_initArgs_'' = Some (TupleV [IntV 3])"
    by simp
  have sch: "spec_schedule (mro_of (node_class [example_derived, example_user])) =
      concat (map level_schedule
        [baseGestaltNode, node_class [example_user], node_class [example_derived, example_user]])"
    unfolding spec_schedule_node_class by (simp add: spec_schedule_def)
  from s0(1) have run: "lifecycle_init (node_class [example_derived, example_user]) (example_heap, example_self) =
           run_schedule [IntV 3] [(''baud'', IntV 9600)]
             (spec_schedule (mro_of (node_class [example_derived, example_user]))) (example_heap, s0)"
    unfolding ll sch by simp
  from p have p': "map_of (idict example_self) ''_recursiveInit_'' = None"
    "map_of (idict example_self) ''_initArgs_'' = Some (TupleV [IntV 3])"
    "map_of (idict example_self) ''_initKwargs_'' = Some (DictV [(StrV ''baud'', IntV 9600)])"
    "map_of (idict example_self) ''_outboundPortTable_'' = None"
    by simp_all
  from run s0(2,3) i p' ll show ?thesis
    by blast
qed

text \<open>
  Claim C10. The two classes a call derives carry the same binding attributes:
  the same port, the same reply flag (one new event object, referenced by both),
  the same outbound template and the same inbound template, which are the
  supplied ones when supplied.
\<close>

theorem bindPort_halves_agree:
  assumes ok: "bindPort core port ofn ot ifn it (h, s) = Inr (h', s')"
  shows "getattr_type (types h') (length (types h)) ''_port_'' = Some (IntV port)
       \<and> getattr_type (types h') (Suc (length (types h))) ''_port_'' = Some (IntV port)
       \<and> getattr_type (types h') (length (types h)) ''_inboundPacketFlag_'' = Some (EventRef (length (events h)))
       \<and> getattr_type (types h') (Suc (length (types h))) ''_inboundPacketFlag_'' = Some (EventRef (length (events h)))
       \<and> events h' = events h @ [False]
       \<and> (\<exists>outT. getattr_type (types h') (length (types h)) ''_outboundTemplate_'' = Some outT
              \<and> getattr_type (types h') (Suc (length (types h))) ''_outboundTemplate_'' = Some outT
              \<and> (ot \<noteq> NoneV \<longrightarrow> outT = ot))
       \<and> (\<exists>inT. getattr_type (types h') (length (types h)) ''_inboundTemplate_'' = Some inT
              \<and> getattr_type (types h') (Suc (length (types h))) ''_inboundTemplate_'' = Some inT
              \<and> (it \<noteq> NoneV \<longrightarrow> inT = it))"
  using ok
proof (cases rule: bindPort_InrE)
  case (bound on inn d1 d2)
  show ?thesis
    unfolding bound(1)
    by (simp add: getattr_type_new0 getattr_type_new1 bound(2) template_or_empty_simps)
qed

theorem bindPort_halves_agree_witness:
  "bindPort example_core 7 (Some 2) NoneV None NoneV (example_heap, example_node) =
     Inr (example_heap1, example_node1)
   \<and> getattr_type (types example_heap1) 3 ''_port_'' = Some (IntV 7)
   \<and> getattr_type (types example_heap1) 4 ''_port_'' = Some (IntV 7)
   \<and> getattr_type (types example_heap1) 3 ''_inboundPacketFlag_'' = Some (EventRef 0)
   \<and> getattr_type (types example_heap1) 4 ''_inboundPacketFlag_'' = Some (EventRef 0)
   \<and> getattr_type (types example_heap1) 3 ''_outboundTemplate_'' =
       getattr_type (types example_heap1) 4 ''_outboundTemplate_''
   \<and> getattr_type (types example_heap1) 3 ''_inboundTemplate_'' =
       getattr_type (types example_heap1) 4 ''_inboundTemplate_''"
  using example_first_binding bindPort_halves_agree[OF example_first_binding]
  by (auto simp: example_lengths eval_nat_numeral)

end
